theory Spec2Isabelle
  imports Main
begin

section \<open>Python values and exceptions\<close>

text \<open>
  The values a JSON field such as \<open>driver_info\<close> can hold, as far as the code below
  inspects them: \<open>None\<close>, booleans, integers and strings. The sources are Python 2
  (\<open>iteritems\<close>): an integer within the machine word is an \<open>int\<close> (\<open>PyInt\<close>), one beyond
  it is a \<open>long\<close> (\<open>PyLong\<close>), and which of the two a value is belongs to the value.
\<close>

datatype pyval = PyNone | PyBool bool | PyInt int | PyLong int | PyStr string

text \<open>
  Python truth of a value: \<open>not v\<close> holds for \<open>None\<close>, \<open>False\<close>, \<open>0\<close>, \<open>0L\<close> and \<open>''\<close>.
\<close>

fun truthy :: "pyval \<Rightarrow> bool" where
  "truthy PyNone = False"
| "truthy (PyBool b) = b"
| "truthy (PyInt i) = (i \<noteq> 0)"
| "truthy (PyLong i) = (i \<noteq> 0)"
| "truthy (PyStr s) = (s \<noteq> [])"

text \<open>
  \<open>v == k\<close> for an integer literal \<open>k\<close>: a \<open>long\<close> compares by its number, a boolean as
  0 or 1.
\<close>

fun py_eq_int :: "pyval \<Rightarrow> int \<Rightarrow> bool" where
  "py_eq_int (PyInt i) k = (i = k)"
| "py_eq_int (PyLong i) k = (i = k)"
| "py_eq_int (PyBool b) k = ((if b then 1 else 0) = k)"
| "py_eq_int _ k = False"

text \<open>
  \<open>isinstance(v, int)\<close>: \<open>bool\<close> is a subclass of \<open>int\<close>; a \<open>long\<close> is not an \<open>int\<close>.
\<close>

fun isinstance_int :: "pyval \<Rightarrow> bool" where
  "isinstance_int (PyInt i) = True"
| "isinstance_int (PyBool b) = True"
| "isinstance_int _ = False"

definition lower_char :: "char \<Rightarrow> char" where
  "lower_char c =
     (case map_of (zip ''ABCDEFGHIJKLMNOPQRSTUVWXYZ'' ''abcdefghijklmnopqrstuvwxyz'') c of
        Some d \<Rightarrow> d
      | None \<Rightarrow> c)"


definition str_lower :: "string \<Rightarrow> string" where
  "str_lower s = map lower_char s"


text \<open>
  The exceptions of \<open>ironic.common.exception\<close> that the code raises or catches, and
  Python's \<open>AttributeError\<close> and \<open>TypeError\<close>. \<open>DriverError\<close> stands for any other
  exception a driver call raises. A constructor carries the message where a property
  below reads it.
\<close>

datatype exn =
    NodeLocked
  | NodeNotFound
  | DriverNotFound
  | NodeAssociated
  | NodeInWrongPowerState
  | NodeInMaintenance
  | InvalidParameterValue string
  | MissingParameterValue string
  | UnsupportedDriverExtension
  | NoFreeConductorWorker
  | InvalidState
  | InstanceDeployFailure
  | IronicException
  | PowerStateFailure
  | AttributeError
  | TypeError
  | DriverError string

section \<open>iRMC driver: \<open>parse_driver_info\<close>\<close>

text \<open>The \<open>[irmc]\<close> options of \<open>CONF\<close>: two \<open>IntOpt\<close> and one \<open>StrOpt\<close>.\<close>

record irmc_conf =
  conf_port :: int
  conf_auth_method :: string
  conf_client_timeout :: int

text \<open>
  \<open>REQUIRED_PROPERTIES\<close> and \<open>OPTIONAL_PROPERTIES\<close> are dictionaries; the code reads
  their keys only.
\<close>

definition REQUIRED_PROPERTIES :: "string set" where
  "REQUIRED_PROPERTIES = {''irmc_address'', ''irmc_username'', ''irmc_password''}"

definition OPTIONAL_PROPERTIES :: "string set" where
  "OPTIONAL_PROPERTIES = {''port'', ''auth_method'', ''client_timeout''}"

text \<open>\<open>CONF.irmc.get(param)\<close> for the three optional parameters.\<close>

definition conf_get :: "irmc_conf \<Rightarrow> string \<Rightarrow> pyval" where
  "conf_get conf param =
     (if param = ''port'' then PyInt (conf_port conf)
      else if param = ''auth_method'' then PyStr (conf_auth_method conf)
      else if param = ''client_timeout'' then PyInt (conf_client_timeout conf)
      else PyNone)"

text \<open>\<open>info.get(key)\<close> with the default \<open>None\<close>, and \<open>info.get(key, d)\<close>.\<close>

definition dict_get :: "(string \<rightharpoonup> pyval) \<Rightarrow> string \<Rightarrow> pyval" where
  "dict_get info k = (case info k of None \<Rightarrow> PyNone | Some v \<Rightarrow> v)"

definition dict_get_default :: "(string \<rightharpoonup> pyval) \<Rightarrow> string \<Rightarrow> pyval \<Rightarrow> pyval" where
  "dict_get_default info k d = (case info k of None \<Rightarrow> d | Some v \<Rightarrow> v)"

text \<open>Python's \<open>repr\<close> of a list of strings, as \<open>%s\<close> prints \<open>missing_info\<close>.\<close>

fun join :: "string \<Rightarrow> string list \<Rightarrow> string" where
  "join sep [] = []"
| "join sep [x] = x"
| "join sep (x # y # ys) = x @ sep @ join sep (y # ys)"

definition quoted :: "string \<Rightarrow> string" where
  "quoted k = [CHR 0x27] @ k @ [CHR 0x27]"

definition repr_list :: "string list \<Rightarrow> string" where
  "repr_list ks = ''['' @ join '', '' (map quoted ks) @ '']''"

text \<open>\<open>v.lower()\<close>: only a string has the method.\<close>

fun py_lower :: "pyval \<Rightarrow> exn + string" where
  "py_lower (PyStr s) = Inr (str_lower s)"
| "py_lower _ = Inl AttributeError"

text \<open>
  The dictionary \<open>opt\<close> of the comprehension over \<open>OPTIONAL_PROPERTIES\<close>: the key
  \<open>'irmc_' + param\<close> for each \<open>param\<close>, with the value of \<open>driver_info\<close> or else of the
  configuration.
\<close>

definition opt_dict :: "irmc_conf \<Rightarrow> (string \<rightharpoonup> pyval) \<Rightarrow> (string \<rightharpoonup> pyval)" where
  "opt_dict conf info =
     (\<lambda>k. if take 5 k = ''irmc_'' \<and> drop 5 k \<in> OPTIONAL_PROPERTIES
          then Some (dict_get_default info k (conf_get conf (drop 5 k)))
          else None)"

text \<open>
  \<open>parse_driver_info\<close>. The list \<open>missing_info\<close> follows the order in which Python
  iterates the dictionary \<open>REQUIRED_PROPERTIES\<close>, which the sources do not fix: that
  order of its keys is the argument \<open>key_order\<close>. It shows in the message of
  \<open>MissingParameterValue\<close> only.
\<close>

definition parse_driver_info ::
  "irmc_conf \<Rightarrow> string list \<Rightarrow> (string \<rightharpoonup> pyval) \<Rightarrow> exn + (string \<rightharpoonup> pyval)" where
  "parse_driver_info conf key_order info =
     (let missing_info = filter (\<lambda>key. \<not> truthy (dict_get info key)) key_order in
      if missing_info \<noteq> [] then
        Inl (MissingParameterValue
          (''Missing the following iRMC parameters in node's driver_info: ''
             @ repr_list missing_info @ ''.''))
      else
        let req = info |` REQUIRED_PROPERTIES;
            opt = opt_dict conf info;
            d_info = req ++ opt
        in case py_lower (dict_get d_info ''irmc_auth_method'') of
             Inl e \<Rightarrow> Inl e
           | Inr auth \<Rightarrow>
               let error_msgs =
                     (if auth \<noteq> ''basic'' \<and> auth \<noteq> ''digest''
                      then [quoted ''irmc_auth_method'' @ '' has unsupported value.''] else [])
                   @ (if \<not> py_eq_int (dict_get d_info ''irmc_port'') 80
                         \<and> \<not> py_eq_int (dict_get d_info ''irmc_port'') 443
                      then [quoted ''irmc_port'' @ '' has unsupported value.''] else [])
                   @ (if \<not> isinstance_int (dict_get d_info ''irmc_client_timeout'')
                      then [quoted ''irmc_client_timeout'' @ '' is not integer type.''] else [])
               in if error_msgs \<noteq> [] then
                    Inl (InvalidParameterValue
                      (''The following type errors were encountered while parsing driver_info:''
                         @ [CHR 0x0A] @ join [CHR 0x0A] error_msgs))
                  else Inr d_info)"

definition irmc_defaults :: irmc_conf where
  "irmc_defaults = \<lparr>conf_port = 443, conf_auth_method = ''basic'', conf_client_timeout = 60\<rparr>"

definition info_int_auth :: "string \<rightharpoonup> pyval" where
  "info_int_auth =
     [''irmc_address'' \<mapsto> PyStr ''10.0.0.1'', ''irmc_username'' \<mapsto> PyStr ''admin'',
      ''irmc_password'' \<mapsto> PyStr ''secret'', ''irmc_auth_method'' \<mapsto> PyInt 5]"


section \<open>The conductor's data\<close>

text \<open>
  Modelled from the spec: \<open>ironic.common.states\<close> is not among the sources. Power states
  are the values of section 3 of the specification; \<open>NOSTATE\<close> is Python's \<open>None\<close>
  (manager.py, the note in \<open>do_node_tear_down\<close>), so a power state field is an option.
  Provisioning states are the states of the table of section 4.F, again with \<open>None\<close> for
  \<open>NOSTATE\<close>.
\<close>

datatype pstate = POWER_ON | POWER_OFF | REBOOT | ERROR

type_synonym power_state = "pstate option"

datatype pvstate = AVAILABLE | ACTIVE | DEPLOYING | DEPLOYWAIT | DEPLOYFAIL | DELETING

text \<open>The fields of a node object that the handlers assign.\<close>

datatype field =
    F_driver | F_power_state | F_target_power_state | F_provision_state
  | F_target_provision_state | F_maintenance | F_maintenance_reason | F_instance_uuid
  | F_instance_info | F_console_enabled | F_last_error

text \<open>
  A node, as a row of the store and as a node object. An object also carries the set of
  fields assigned since it was loaded or saved (\<open>obj_what_changed()\<close>).
\<close>

record node =
  uuid :: string
  driver :: string
  power_state :: power_state
  target_power_state :: power_state
  provision_state :: "pvstate option"
  target_provision_state :: "pvstate option"
  maintenance :: bool
  maintenance_reason :: "string option"
  reservation :: "string option"
  instance_uuid :: "string option"
  instance_info :: "string \<rightharpoonup> pyval"
  console_enabled :: bool
  last_error :: "string option"
  changed_fields :: "field set"

text \<open>Assignments to a field of a node object: the field is marked as changed.\<close>

definition set_power_state :: "power_state \<Rightarrow> node \<Rightarrow> node" where
  "set_power_state v n =
     n\<lparr>power_state := v, changed_fields := insert F_power_state (changed_fields n)\<rparr>"

definition set_target_power_state :: "power_state \<Rightarrow> node \<Rightarrow> node" where
  "set_target_power_state v n =
     n\<lparr>target_power_state := v,
       changed_fields := insert F_target_power_state (changed_fields n)\<rparr>"

definition set_provision_state :: "pvstate option \<Rightarrow> node \<Rightarrow> node" where
  "set_provision_state v n =
     n\<lparr>provision_state := v, changed_fields := insert F_provision_state (changed_fields n)\<rparr>"

definition set_target_provision_state :: "pvstate option \<Rightarrow> node \<Rightarrow> node" where
  "set_target_provision_state v n =
     n\<lparr>target_provision_state := v,
       changed_fields := insert F_target_provision_state (changed_fields n)\<rparr>"

definition set_maintenance :: "bool \<Rightarrow> node \<Rightarrow> node" where
  "set_maintenance v n =
     n\<lparr>maintenance := v, changed_fields := insert F_maintenance (changed_fields n)\<rparr>"

definition set_maintenance_reason :: "string option \<Rightarrow> node \<Rightarrow> node" where
  "set_maintenance_reason v n =
     n\<lparr>maintenance_reason := v,
       changed_fields := insert F_maintenance_reason (changed_fields n)\<rparr>"

definition set_instance_info :: "(string \<rightharpoonup> pyval) \<Rightarrow> node \<Rightarrow> node" where
  "set_instance_info v n =
     n\<lparr>instance_info := v, changed_fields := insert F_instance_info (changed_fields n)\<rparr>"

definition set_last_error :: "string option \<Rightarrow> node \<Rightarrow> node" where
  "set_last_error v n =
     n\<lparr>last_error := v, changed_fields := insert F_last_error (changed_fields n)\<rparr>"

text \<open>
  A driver is outside the sources: it is the outcome of each call the handlers make on it.
  \<open>validate\<close> returns the exception it raises, if any.
\<close>

record console_iface =
  console_validate :: "node \<Rightarrow> exn option"

text \<open>One entry of \<open>vendor_routes\<close>; \<open>is_async\<close> is the key \<open>'async'\<close>.\<close>

record vendor_route =
  func :: "node \<Rightarrow> (string \<rightharpoonup> pyval) \<Rightarrow> exn + pyval"
  http_methods :: "string list"
  is_async :: bool

text \<open>
  \<open>has_vendor_passthru\<close> is \<open>hasattr(vendor_iface, 'vendor_passthru')\<close>. \<open>vendor_validate\<close>
  takes the method, the HTTP method when the caller passes one, and \<open>info\<close>.
\<close>

record vendor_iface =
  has_vendor_passthru :: bool
  vendor_validate :: "node \<Rightarrow> string \<Rightarrow> string option \<Rightarrow> (string \<rightharpoonup> pyval) \<Rightarrow> exn option"
  vendor_routes :: "string \<rightharpoonup> vendor_route"

record base_driver =
  power_validate :: "node \<Rightarrow> exn option"
  get_power_state :: "node \<Rightarrow> exn + power_state"
  deploy_validate :: "node \<Rightarrow> exn option"
  console :: "console_iface option"
  vendor :: "vendor_iface option"

text \<open>The work handed to the worker pool: the function spawned and its arguments.\<close>

datatype job =
    NodePowerAction string power_state
  | VendorPassthruLegacy string string "string \<rightharpoonup> pyval"
  | VendorFunc string string "string \<rightharpoonup> pyval"
  | DoNodeDeploy string
  | CleanupAfterTimeout string
  | SetConsoleMode string bool

text \<open>What a handler does to its collaborators, in the order it does it.\<close>

datatype action =
    DriverCall string
  | NodeSave node
  | NodeDestroy string
  | NodeInfoList
  | ProcessEvent string string
  | Spawn job

text \<open>
  The store's node rows by uuid, the free slots of the worker pool, and the actions so far.
\<close>

record world =
  nodes :: "string \<rightharpoonup> node"
  free_workers :: nat
  trace :: "action list"

definition emit :: "action \<Rightarrow> world \<Rightarrow> world" where
  "emit a w = w\<lparr>trace := trace w @ [a]\<rparr>"

text \<open>The hook of \<open>set_spawn_error_hook\<close>, with the arguments stashed for it.\<close>

datatype hook =
    PowerStateErrorHandler power_state
  | ProvisioningErrorHandler "pvstate option" "pvstate option"

record task =
  t_node :: node
  t_driver :: base_driver
  t_shared :: bool
  spawn_args :: "job option"
  on_error :: "hook option"

text \<open>
  The conductor: \<open>self\<close>, the options of \<open>CONF.conductor\<close> that the code reads, and the
  collaborators that are not among the sources, each taken as a parameter:
  the driver factory (\<open>drivers\<close>), the transition table of the provisioning state machine
  (\<open>fsm\<close>: the next state and target, or nothing for an illegal transition), the hash ring
  (\<open>mapped_to_this_conductor\<close>), the store's query \<open>get_nodeinfo_list\<close> with the filters of
  \<open>_check_deploy_timeouts\<close> (its argument is \<open>provisioned_before\<close>), the text of a power
  state in a message, and \<open>utils.node_power_action\<close>, which returns the exception it
  raised, if any.
\<close>

record conductor =
  host :: string
  drivers :: "string \<rightharpoonup> base_driver"
  power_state_sync_max_retries :: int
  force_power_state_during_sync :: bool
  deploy_callback_timeout :: int
  periodic_max_workers :: int
  fsm :: "pvstate option \<Rightarrow> string \<Rightarrow> (pvstate option \<times> pvstate option) option"
  mapped_to_this_conductor :: "string \<Rightarrow> string \<Rightarrow> bool"
  get_nodeinfo_list :: "int \<Rightarrow> world \<Rightarrow> (string \<times> string) list"
  state_text :: "pstate \<Rightarrow> string"
  node_power_action :: "task \<Rightarrow> power_state \<Rightarrow> world \<Rightarrow> exn option \<times> task \<times> world"

section \<open>The store and the task manager\<close>

text \<open>
  Modelled from the spec: the store (\<open>ironic.db\<close>, \<open>ironic.objects\<close>) and
  \<open>ironic.conductor.task_manager\<close> are not among the sources. The definitions of this
  section follow sections 4.C, 4.D, 4.F and 9 of the specification.
\<close>

definition get_node :: "string \<Rightarrow> world \<Rightarrow> exn + node" where
  "get_node node_id w =
     (case nodes w node_id of None \<Rightarrow> Inl NodeNotFound | Some row \<Rightarrow> Inr row)"

text \<open>\<open>reserve_node\<close> sets the reservation iff it is empty, and fails \<open>NodeLocked\<close> otherwise.\<close>

definition reserve_node :: "string \<Rightarrow> string \<Rightarrow> world \<Rightarrow> exn + node \<times> world" where
  "reserve_node hostname node_id w =
     (case nodes w node_id of
        None \<Rightarrow> Inl NodeNotFound
      | Some row \<Rightarrow>
          (case reservation row of
             Some holder \<Rightarrow> Inl NodeLocked
           | None \<Rightarrow>
               let row' = row\<lparr>reservation := Some hostname\<rparr>
               in Inr (row', w\<lparr>nodes := (nodes w)(node_id \<mapsto> row')\<rparr>)))"

definition release_node :: "string \<Rightarrow> string \<Rightarrow> world \<Rightarrow> world" where
  "release_node hostname node_id w =
     (case nodes w node_id of
        None \<Rightarrow> w
      | Some row \<Rightarrow>
          if reservation row = Some hostname
          then w\<lparr>nodes := (nodes w)(node_id \<mapsto> row\<lparr>reservation := None\<rparr>)\<rparr>
          else w)"

text \<open>
  \<open>save\<close> writes the fields assigned since the object was loaded into the row and resets
  the object's changes. A row that the task has locked cannot vanish; a save without a row
  is left without effect on the store.
\<close>

definition copy_changed :: "field set \<Rightarrow> node \<Rightarrow> node \<Rightarrow> node" where
  "copy_changed ch obj row =
     row\<lparr>driver := (if F_driver \<in> ch then driver obj else driver row),
         power_state := (if F_power_state \<in> ch then power_state obj else power_state row),
         target_power_state :=
           (if F_target_power_state \<in> ch then target_power_state obj
            else target_power_state row),
         provision_state :=
           (if F_provision_state \<in> ch then provision_state obj else provision_state row),
         target_provision_state :=
           (if F_target_provision_state \<in> ch then target_provision_state obj
            else target_provision_state row),
         maintenance := (if F_maintenance \<in> ch then maintenance obj else maintenance row),
         maintenance_reason :=
           (if F_maintenance_reason \<in> ch then maintenance_reason obj
            else maintenance_reason row),
         instance_uuid :=
           (if F_instance_uuid \<in> ch then instance_uuid obj else instance_uuid row),
         instance_info :=
           (if F_instance_info \<in> ch then instance_info obj else instance_info row),
         console_enabled :=
           (if F_console_enabled \<in> ch then console_enabled obj else console_enabled row),
         last_error := (if F_last_error \<in> ch then last_error obj else last_error row)\<rparr>"

definition save :: "node \<Rightarrow> world \<Rightarrow> node \<times> world" where
  "save obj w =
     (obj\<lparr>changed_fields := {}\<rparr>,
      emit (NodeSave obj)
        (case nodes w (uuid obj) of
           None \<Rightarrow> w
         | Some row \<Rightarrow>
             w\<lparr>nodes := (nodes w)(uuid obj \<mapsto> copy_changed (changed_fields obj) obj row)\<rparr>))"

definition destroy :: "node \<Rightarrow> world \<Rightarrow> world" where
  "destroy obj w = emit (NodeDestroy (uuid obj)) (w\<lparr>nodes := (nodes w)(uuid obj := None)\<rparr>)"

text \<open>
  \<open>release_resources\<close>: an exclusive task gives its reservation back; releasing twice, or a
  node that was destroyed, changes nothing.
\<close>

definition release_resources :: "conductor \<Rightarrow> task \<Rightarrow> world \<Rightarrow> world" where
  "release_resources c task w =
     (if t_shared task then w else release_node (host c) (uuid (t_node task)) w)"

text \<open>
  \<open>acquire\<close>: a shared task reads the node, an exclusive one reserves it (between the
  attempts of the bounded retry nothing here changes the row, so they are one attempt);
  then the driver is loaded by \<open>driver_name\<close>, or by the node's driver when none is given.
  A failure after the reservation releases it.
\<close>

definition acquire ::
  "conductor \<Rightarrow> string \<Rightarrow> bool \<Rightarrow> string option \<Rightarrow> world \<Rightarrow> (exn + task) \<times> world" where
  "acquire c node_id shared driver_name w =
     (case (if shared then (case get_node node_id w of Inl e \<Rightarrow> Inl e | Inr row \<Rightarrow> Inr (row, w))
            else reserve_node (host c) node_id w) of
        Inl e \<Rightarrow> (Inl e, w)
      | Inr (row, w') \<Rightarrow>
          (case drivers c (case driver_name of None \<Rightarrow> driver row | Some name \<Rightarrow> name) of
             None \<Rightarrow>
               (Inl DriverNotFound,
                if shared then w' else release_node (host c) node_id w')
           | Some d \<Rightarrow>
               (Inr \<lparr>t_node = row\<lparr>changed_fields := {}\<rparr>, t_driver = d, t_shared = shared,
                     spawn_args = None, on_error = None\<rparr>, w')))"

section \<open>The worker pool and the error hooks (manager.py)\<close>

text \<open>
  \<open>_spawn_worker\<close>: a job is spawned if the pool has a free slot; the job itself runs
  later, outside the handler.
\<close>

definition spawn_worker :: "job \<Rightarrow> world \<Rightarrow> exn + world" where
  "spawn_worker j w =
     (if free_workers w \<noteq> 0
      then Inr (emit (Spawn j) (w\<lparr>free_workers := free_workers w - 1\<rparr>))
      else Inl NoFreeConductorWorker)"

definition power_state_error_handler ::
  "exn \<Rightarrow> node \<Rightarrow> power_state \<Rightarrow> world \<Rightarrow> node \<times> world" where
  "power_state_error_handler e node0 ps w =
     (if e = NoFreeConductorWorker then
        let node1 = set_power_state ps node0;
            node2 = set_target_power_state None node1;
            node3 = set_last_error (Some ''No free conductor workers available'') node2
        in save node3 w
      else (node0, w))"

definition provisioning_error_handler ::
  "exn \<Rightarrow> node \<Rightarrow> pvstate option \<Rightarrow> pvstate option \<Rightarrow> world \<Rightarrow> node \<times> world" where
  "provisioning_error_handler e node0 prov target w =
     (if e = NoFreeConductorWorker then
        let node1 = set_provision_state prov node0;
            node2 = set_target_provision_state target node1;
            node3 = set_last_error (Some ''No free conductor workers available'') node2
        in save node3 w
      else (node0, w))"

section \<open>Leaving a task, and the state machine's events\<close>

text \<open>
  Modelled from the spec (section 4.D): on leaving the scope without an exception, a job
  recorded by \<open>spawn_after\<close> is submitted, and the job then owns the reservation; if the
  spawner raises, the error hook runs before the reservation is released, and the
  exception goes to the caller. On every other path the reservation is released.
\<close>

definition run_error_hook :: "exn \<Rightarrow> task \<Rightarrow> world \<Rightarrow> task \<times> world" where
  "run_error_hook e task w =
     (case on_error task of
        None \<Rightarrow> (task, w)
      | Some (PowerStateErrorHandler ps) \<Rightarrow>
          (case power_state_error_handler e (t_node task) ps w of
             (node', w') \<Rightarrow> (task\<lparr>t_node := node'\<rparr>, w'))
      | Some (ProvisioningErrorHandler prov target) \<Rightarrow>
          (case provisioning_error_handler e (t_node task) prov target w of
             (node', w') \<Rightarrow> (task\<lparr>t_node := node'\<rparr>, w')))"

definition task_exit :: "conductor \<Rightarrow> exn + 'a \<Rightarrow> task \<Rightarrow> world \<Rightarrow> (exn + 'a) \<times> world" where
  "task_exit c res task w =
     (case res of
        Inl e \<Rightarrow> (Inl e, release_resources c task w)
      | Inr v \<Rightarrow>
          (case spawn_args task of
             None \<Rightarrow> (Inr v, release_resources c task w)
           | Some j \<Rightarrow>
               (case spawn_worker j w of
                  Inr w' \<Rightarrow> (Inr v, w')
                | Inl e \<Rightarrow>
                    (case run_error_hook e task w of
                       (task', w') \<Rightarrow> (Inl e, release_resources c task' w')))))"

text \<open>\<open>with task_manager.acquire(...) as task: body\<close>.\<close>

definition with_task ::
  "conductor \<Rightarrow> string \<Rightarrow> bool \<Rightarrow> string option
     \<Rightarrow> (task \<Rightarrow> world \<Rightarrow> (exn + 'a) \<times> task \<times> world) \<Rightarrow> world \<Rightarrow> (exn + 'a) \<times> world" where
  "with_task c node_id shared driver_name body w =
     (case acquire c node_id shared driver_name w of
        (Inl e, w') \<Rightarrow> (Inl e, w')
      | (Inr task, w') \<Rightarrow>
          (case body task w' of (res, task', w'') \<Rightarrow> task_exit c res task' w''))"

text \<open>
  Modelled from the spec (sections 4.D and 4.F): \<open>process_event\<close> advances the state machine
  and fails \<open>InvalidState\<close> on an illegal transition. With a callback, the states before the
  transition are stashed for the provisioning error handler, \<open>last_error\<close> is cleared and
  the callback is deferred like \<open>spawn_after\<close>; the transition is published by saving the
  node.
\<close>

definition process_event ::
  "conductor \<Rightarrow> string \<Rightarrow> job option \<Rightarrow> task \<Rightarrow> world \<Rightarrow> (exn + unit) \<times> task \<times> world" where
  "process_event c event callback task w0 =
     (let node0 = t_node task;
          w1 = emit (ProcessEvent (uuid node0) event) w0
      in case fsm c (provision_state node0) event of
           None \<Rightarrow> (Inl InvalidState, task, w1)
         | Some (next_state, next_target) \<Rightarrow>
             let node1 = set_provision_state next_state node0;
                 node2 = set_target_provision_state next_target node1;
                 node3 = (if callback \<noteq> None then set_last_error None node2 else node2);
                 (node4, w2) = save node3 w1
             in (Inr (),
                 task\<lparr>t_node := node4,
                      spawn_args := (if callback \<noteq> None then callback else spawn_args task),
                      on_error :=
                        (if callback \<noteq> None
                         then Some (ProvisioningErrorHandler (provision_state node0)
                                      (target_provision_state node0))
                         else on_error task)\<rparr>,
                 w2))"

section \<open>The RPC handlers (manager.py)\<close>

definition change_node_power_state ::
  "conductor \<Rightarrow> string \<Rightarrow> power_state \<Rightarrow> world \<Rightarrow> (exn + unit) \<times> world" where
  "change_node_power_state c node_id new_state w =
     with_task c node_id False None
       (\<lambda>task w0.
          let w1 = emit (DriverCall ''power.validate'') w0 in
          case power_validate (t_driver task) (t_node task) of
            Some e \<Rightarrow> (Inl e, task, w1)
          | None \<Rightarrow>
              let node1 = (if new_state = Some REBOOT
                           then set_target_power_state (Some POWER_ON) (t_node task)
                           else set_target_power_state new_state (t_node task));
                  node2 = set_last_error None node1;
                  (node3, w2) = save node2 w1;
                  task1 = task\<lparr>t_node := node3,
                               on_error := Some (PowerStateErrorHandler (power_state node3))\<rparr>;
                  task2 = task1\<lparr>spawn_args := Some (NodePowerAction (uuid node3) new_state)\<rparr>
              in (Inr (), task2, w2))
       w"

definition update_node :: "conductor \<Rightarrow> node \<Rightarrow> world \<Rightarrow> (exn + node) \<times> world" where
  "update_node c node_obj w =
     (let node_id = uuid node_obj;
          delta = changed_fields node_obj
      in if F_power_state \<in> delta then (Inl IronicException, w)
         else
           let node_obj1 = (if F_maintenance \<in> delta \<and> \<not> maintenance node_obj
                            then set_maintenance_reason None node_obj else node_obj);
               driver_name = (if F_driver \<in> delta then Some (driver node_obj1) else None)
           in with_task c node_id False driver_name
                (\<lambda>task w0. case save node_obj1 w0 of (node_obj2, w1) \<Rightarrow> (Inr node_obj2, task, w1))
                w)"


definition is_parameter_error :: "exn \<Rightarrow> bool" where
  "is_parameter_error e =
     (case e of InvalidParameterValue m \<Rightarrow> True | MissingParameterValue m \<Rightarrow> True
      | _ \<Rightarrow> False)"

text \<open>
  The RPC method \<open>do_node_deploy\<close>. The function of the same name that the worker runs is
  the job \<open>DoNodeDeploy\<close>.
\<close>

definition do_node_deploy :: "conductor \<Rightarrow> string \<Rightarrow> bool \<Rightarrow> world \<Rightarrow> (exn + unit) \<times> world" where
  "do_node_deploy c node_id rebuild w =
     with_task c node_id False None
       (\<lambda>task w0.
          let node0 = t_node task in
          if maintenance node0 then (Inl NodeInMaintenance, task, w0)
          else
            let w1 = emit (DriverCall ''power.validate'') w0;
                (invalid, w2) =
                  (case power_validate (t_driver task) node0 of
                     Some e \<Rightarrow> (Some e, w1)
                   | None \<Rightarrow>
                       (deploy_validate (t_driver task) node0,
                        emit (DriverCall ''deploy.validate'') w1))
            in case invalid of
                 Some e \<Rightarrow>
                   (Inl (if is_parameter_error e then InstanceDeployFailure else e), task, w2)
               | None \<Rightarrow>
                   let (event, node1, w3) =
                         (if rebuild then
                            let info0 = instance_info node0;
                                info1 = info0(''kernel'' := None);
                                info2 = info1(''ramdisk'' := None)
                            in case save (set_instance_info info2 node0) w2 of
                                 (node', w') \<Rightarrow> (''rebuild'', node', w')
                          else (''deploy'', node0, w2))
                   in (case process_event c event (Some (DoNodeDeploy (uuid node1)))
                              (task\<lparr>t_node := node1\<rparr>) w3 of
                         (Inl e, task', w4) \<Rightarrow>
                           (Inl (if e = InvalidState then InstanceDeployFailure else e), task', w4)
                       | (Inr u, task', w4) \<Rightarrow> (Inr (), task', w4)))
       w"

definition destroy_node :: "conductor \<Rightarrow> string \<Rightarrow> world \<Rightarrow> (exn + unit) \<times> world" where
  "destroy_node c node_id w =
     with_task c node_id False None
       (\<lambda>task w0.
          let node0 = t_node task in
          if instance_uuid node0 \<noteq> None then (Inl NodeAssociated, task, w0)
          else if power_state node0 \<notin> set [Some POWER_OFF, None]
          then (Inl NodeInWrongPowerState, task, w0)
          else (Inr (), task, destroy node0 w0))
       w"

definition set_console_mode :: "conductor \<Rightarrow> string \<Rightarrow> bool \<Rightarrow> world \<Rightarrow> (exn + unit) \<times> world" where
  "set_console_mode c node_id enabled w =
     with_task c node_id False None
       (\<lambda>task w0.
          let node0 = t_node task in
          case console (t_driver task) of
            None \<Rightarrow> (Inl UnsupportedDriverExtension, task, w0)
          | Some console_if \<Rightarrow>
              let w1 = emit (DriverCall ''console.validate'') w0 in
              (case console_validate console_if node0 of
                 Some e \<Rightarrow> (Inl e, task, w1)
               | None \<Rightarrow>
                   if enabled = console_enabled node0
                   then (Inr (), task, release_resources c task w1)
                   else
                     (case save (set_last_error None node0) w1 of
                        (node1, w2) \<Rightarrow>
                          (Inr (),
                           task\<lparr>t_node := node1,
                                spawn_args := Some (SetConsoleMode (uuid node1) enabled)\<rparr>,
                           w2))))
       w"

section \<open>Periodic tasks (manager.py)\<close>

text \<open>
  The \<open>try\<close> block of \<open>_check_deploy_timeouts\<close> for one node. Its value is \<open>True\<close> when the
  \<open>with\<close> block ran to its end, and \<open>False\<close> when the re-check after the lock left it by
  \<open>continue\<close>.
\<close>

definition check_deploy_timeouts_node :: "conductor \<Rightarrow> string \<Rightarrow> world \<Rightarrow> (exn + bool) \<times> world" where
  "check_deploy_timeouts_node c node_uuid w =
     with_task c node_uuid False None
       (\<lambda>task w0.
          if maintenance (t_node task) \<or> provision_state (t_node task) \<noteq> Some DEPLOYWAIT
          then (Inr False, task, w0)
          else
            (case process_event c ''fail'' (Some (CleanupAfterTimeout (uuid (t_node task))))
                    task w0 of
               (Inl e, task', w1) \<Rightarrow> (Inl e, task', w1)
             | (Inr u, task', w1) \<Rightarrow> (Inr True, task', w1)))
       w"

text \<open>
  The loop over \<open>node_list\<close>. It returns the exception that leaves the periodic task, if
  any: \<open>NoFreeConductorWorker\<close> breaks the loop, \<open>NodeLocked\<close> and \<open>NodeNotFound\<close> go on
  to the next node, any other exception is not caught.
\<close>

fun check_deploy_timeouts_loop ::
  "conductor \<Rightarrow> (string \<times> string) list \<Rightarrow> int \<Rightarrow> world \<Rightarrow> exn option \<times> world" where
  "check_deploy_timeouts_loop c [] workers_count w = (None, w)"
| "check_deploy_timeouts_loop c ((node_uuid, driver_name) # node_list) workers_count w =
     (if \<not> mapped_to_this_conductor c node_uuid driver_name
      then check_deploy_timeouts_loop c node_list workers_count w
      else
        case check_deploy_timeouts_node c node_uuid w of
          (Inl e, w') \<Rightarrow>
            (case e of
               NoFreeConductorWorker \<Rightarrow> (None, w')
             | NodeLocked \<Rightarrow> check_deploy_timeouts_loop c node_list workers_count w'
             | NodeNotFound \<Rightarrow> check_deploy_timeouts_loop c node_list workers_count w'
             | _ \<Rightarrow> (Some e, w'))
        | (Inr False, w') \<Rightarrow> check_deploy_timeouts_loop c node_list workers_count w'
        | (Inr True, w') \<Rightarrow>
            if workers_count + 1 = periodic_max_workers c then (None, w')
            else check_deploy_timeouts_loop c node_list (workers_count + 1) w')"

definition check_deploy_timeouts :: "conductor \<Rightarrow> world \<Rightarrow> exn option \<times> world" where
  "check_deploy_timeouts c w =
     (let callback_timeout = deploy_callback_timeout c in
      if callback_timeout = 0 then (None, w)
      else
        let node_list = get_nodeinfo_list c callback_timeout w
        in check_deploy_timeouts_loop c node_list 0 (emit NodeInfoList w))"

text \<open>\<open>%s\<close> of a power state in a message.\<close>

definition str_power_state :: "conductor \<Rightarrow> power_state \<Rightarrow> string" where
  "str_power_state c ps = (case ps of None \<Rightarrow> ''None'' | Some s \<Rightarrow> state_text c s)"

definition max_retries_message :: "conductor \<Rightarrow> node \<Rightarrow> power_state \<Rightarrow> string" where
  "max_retries_message c node0 actual_power_state =
     ''During sync_power_state, max retries exceeded for node '' @ uuid node0
       @ '', node state '' @ str_power_state c actual_power_state
       @ '' does not match expected state '' @ quoted (str_power_state c (power_state node0))
       @ ''. Updating DB state to '' @ quoted (str_power_state c actual_power_state)
       @ '' Switching node to maintenance mode.''"

definition handle_sync_power_state_max_retries_exceeded ::
  "conductor \<Rightarrow> task \<Rightarrow> power_state \<Rightarrow> world \<Rightarrow> task \<times> world" where
  "handle_sync_power_state_max_retries_exceeded c task actual_power_state w =
     (let node0 = t_node task;
          msg = max_retries_message c node0 actual_power_state;
          node1 = set_power_state actual_power_state node0;
          node2 = set_last_error (Some msg) node1;
          node3 = set_maintenance True node2;
          node4 = set_maintenance_reason (Some msg) node3
      in case save node4 w of (node5, w') \<Rightarrow> (task\<lparr>t_node := node5\<rparr>, w'))"

text \<open>
  \<open>do_sync_power_state\<close>. \<open>reading\<close> is what \<open>get_power_state\<close> does; the local variable
  \<open>power_state\<close> (\<open>power_state_var\<close>) keeps its initial \<open>None\<close> when the driver raises.
\<close>

definition do_sync_power_state ::
  "conductor \<Rightarrow> task \<Rightarrow> int \<Rightarrow> world \<Rightarrow> (exn + int) \<times> task \<times> world" where
  "do_sync_power_state c task count0 w0 =
     (let node0 = t_node task;
          count = count0 + 1;
          (invalid, w1) =
            (if power_state node0 = None
             then (power_validate (t_driver task) node0, emit (DriverCall ''power.validate'') w0)
             else (None, w0))
      in case invalid of
           Some e \<Rightarrow> if is_parameter_error e then (Inr 0, task, w1) else (Inl e, task, w1)
         | None \<Rightarrow>
             let w2 = emit (DriverCall ''power.get_power_state'') w1;
                 reading = get_power_state (t_driver task) node0;
                 power_state_var = (case reading of Inl e \<Rightarrow> None | Inr ps \<Rightarrow> ps);
                 raised = (case reading of Inl e \<Rightarrow> True | Inr ps \<Rightarrow> ps = Some ERROR)
             in if raised then
                  (if count > power_state_sync_max_retries c then
                     (case handle_sync_power_state_max_retries_exceeded c task power_state_var w2
                      of (task', w3) \<Rightarrow> (Inr count, task', w3))
                   else (Inr count, task, w2))
                else
                  let (node1, w3) =
                        (if power_state node0 = None
                         then save (set_power_state power_state_var node0) w2
                         else (node0, w2));
                      task1 = task\<lparr>t_node := node1\<rparr>
                  in if power_state node1 = power_state_var then (Inr 0, task1, w3)
                     else if count > power_state_sync_max_retries c then
                       (case handle_sync_power_state_max_retries_exceeded c task1
                               power_state_var w3
                        of (task2, w4) \<Rightarrow> (Inr count, task2, w4))
                     else if force_power_state_during_sync c then
                       (case node_power_action c task1 (power_state node1) w3 of
                          (e, task2, w4) \<Rightarrow> (Inr count, task2, w4))
                     else
                       (case save (set_power_state power_state_var node1) w3 of
                          (node2, w4) \<Rightarrow> (Inr count, task1\<lparr>t_node := node2\<rparr>, w4)))"

section \<open>Notions for the statements\<close>

text \<open>
  What an exclusive \<open>acquire\<close> makes of an unreserved row: the node object of the task,
  the task, and the store with the reservation taken.
\<close>

definition task_node :: "conductor \<Rightarrow> node \<Rightarrow> node" where
  "task_node c row = row\<lparr>reservation := Some (host c), changed_fields := {}\<rparr>"

definition new_task :: "conductor \<Rightarrow> node \<Rightarrow> base_driver \<Rightarrow> task" where
  "new_task c row d =
     \<lparr>t_node = task_node c row, t_driver = d, t_shared = False, spawn_args = None,
      on_error = None\<rparr>"

definition reserved :: "conductor \<Rightarrow> string \<Rightarrow> node \<Rightarrow> world \<Rightarrow> world" where
  "reserved c node_id row w =
     w\<lparr>nodes := (nodes w)(node_id \<mapsto> row\<lparr>reservation := Some (host c)\<rparr>)\<rparr>"

text \<open>
  The node objects that \<open>change_node_power_state\<close> and its error hook save.
\<close>

definition power_request :: "conductor \<Rightarrow> node \<Rightarrow> power_state \<Rightarrow> node" where
  "power_request c row new_state =
     (task_node c row)\<lparr>
        target_power_state := (if new_state = Some REBOOT then Some POWER_ON else new_state),
        last_error := None, changed_fields := {F_last_error, F_target_power_state}\<rparr>"

definition power_rollback :: "conductor \<Rightarrow> node \<Rightarrow> node" where
  "power_rollback c row =
     (task_node c row)\<lparr>
        target_power_state := None,
        last_error := Some ''No free conductor workers available'',
        changed_fields := {F_last_error, F_target_power_state, F_power_state}\<rparr>"

text \<open>The node object that \<open>do_node_deploy\<close> saves on a rebuild.\<close>

definition purged :: "conductor \<Rightarrow> node \<Rightarrow> node" where
  "purged c row =
     (task_node c row)\<lparr>
        instance_info := (instance_info row)(''kernel'' := None, ''ramdisk'' := None),
        changed_fields := {F_instance_info}\<rparr>"

text \<open>
  The \<open>instance_info\<close> of a row; a trace that continues another by the given actions and
  then by anything; the node object after a transition with a callback.
\<close>

definition row_instance_info :: "world \<Rightarrow> string \<Rightarrow> (string \<rightharpoonup> pyval) option" where
  "row_instance_info w node_id = map_option instance_info (nodes w node_id)"

definition extends :: "world \<Rightarrow> action list \<Rightarrow> world \<Rightarrow> bool" where
  "extends w acts w' = (\<exists>tail. trace w' = trace w @ acts @ tail)"

definition transition :: "pvstate option \<Rightarrow> pvstate option \<Rightarrow> node \<Rightarrow> node" where
  "transition next_state next_target obj =
     obj\<lparr>provision_state := next_state, target_provision_state := next_target,
         last_error := None,
         changed_fields :=
           insert F_last_error (insert F_target_provision_state
             (insert F_provision_state (changed_fields obj)))\<rparr>"

text \<open>The driver calls and the spawned jobs of a trace, in order.\<close>

fun driver_calls :: "action list \<Rightarrow> string list" where
  "driver_calls [] = []"
| "driver_calls (DriverCall name # tr) = name # driver_calls tr"
| "driver_calls (a # tr) = driver_calls tr"

fun spawned :: "action list \<Rightarrow> job list" where
  "spawned [] = []"
| "spawned (Spawn j # tr) = j # spawned tr"
| "spawned (a # tr) = spawned tr"

text \<open>
  The node object that \<open>handle_sync_power_state_max_retries_exceeded\<close> saves, and what a
  row records of it: power state, maintenance, maintenance reason and last error.
\<close>

definition escalated :: "conductor \<Rightarrow> node \<Rightarrow> power_state \<Rightarrow> node" where
  "escalated c obj actual =
     obj\<lparr>power_state := actual,
         last_error := Some (max_retries_message c obj actual),
         maintenance := True,
         maintenance_reason := Some (max_retries_message c obj actual),
         changed_fields :=
           insert F_maintenance_reason (insert F_maintenance (insert F_last_error
             (insert F_power_state (changed_fields obj))))\<rparr>"

definition recorded ::
  "world \<Rightarrow> string \<Rightarrow> (power_state \<times> bool \<times> string option \<times> string option) option" where
  "recorded w node_id =
     map_option (\<lambda>r. (power_state r, maintenance r, maintenance_reason r, last_error r))
       (nodes w node_id)"

text \<open>The number of \<open>fail\<close> events of a trace.\<close>

fun fail_events :: "action list \<Rightarrow> nat" where
  "fail_events [] = 0"
| "fail_events (ProcessEvent node_uuid event # tr) =
     (if event = ''fail'' then 1 else 0) + fail_events tr"
| "fail_events (a # tr) = fail_events tr"

section \<open>A concrete conductor\<close>

text \<open>
  One driver, one node and the transitions of the table of section 4.F, for evaluating
  the handlers.
\<close>

definition ex_vendor :: vendor_iface where
  "ex_vendor =
     \<lparr>has_vendor_passthru = False,
      vendor_validate = (\<lambda>n m h i. None),
      vendor_routes =
        [''first_method'' \<mapsto>
           \<lparr>func = (\<lambda>n i. Inr (PyStr ''done'')), http_methods = [''POST''], is_async = False\<rparr>,
         ''second_method'' \<mapsto>
           \<lparr>func = (\<lambda>n i. Inr PyNone), http_methods = [''POST''], is_async = True\<rparr>]\<rparr>"

definition ex_driver :: base_driver where
  "ex_driver =
     \<lparr>power_validate = (\<lambda>n. None),
      get_power_state = (\<lambda>n. Inr (Some POWER_OFF)),
      deploy_validate = (\<lambda>n. None),
      console = Some \<lparr>console_validate = (\<lambda>n. None)\<rparr>,
      vendor = Some ex_vendor\<rparr>"

definition ex_fsm :: "pvstate option \<Rightarrow> string \<Rightarrow> (pvstate option \<times> pvstate option) option" where
  "ex_fsm st event =
     (if st = Some AVAILABLE \<and> event = ''deploy'' then Some (Some DEPLOYING, Some ACTIVE)
      else if st = Some ACTIVE \<and> event = ''rebuild'' then Some (Some DEPLOYING, Some ACTIVE)
      else if st = Some DEPLOYING \<and> event = ''wait'' then Some (Some DEPLOYWAIT, Some ACTIVE)
      else if st = Some DEPLOYWAIT \<and> event = ''done'' then Some (Some ACTIVE, None)
      else if st = Some DEPLOYING \<and> event = ''done'' then Some (Some ACTIVE, None)
      else if st = Some DEPLOYWAIT \<and> event = ''fail'' then Some (Some DEPLOYFAIL, None)
      else if st = Some ACTIVE \<and> event = ''delete'' then Some (Some DELETING, None)
      else if st = Some DELETING \<and> event = ''done'' then Some (Some AVAILABLE, None)
      else None)"

definition ex_state_text :: "pstate \<Rightarrow> string" where
  "ex_state_text s =
     (case s of POWER_ON \<Rightarrow> ''power on'' | POWER_OFF \<Rightarrow> ''power off''
      | REBOOT \<Rightarrow> ''rebooting'' | ERROR \<Rightarrow> ''error'')"

definition ex_conductor :: conductor where
  "ex_conductor =
     \<lparr>host = ''conductor-1'',
      drivers = [''fake'' \<mapsto> ex_driver],
      power_state_sync_max_retries = 3,
      force_power_state_during_sync = False,
      deploy_callback_timeout = 1800,
      periodic_max_workers = 8,
      fsm = ex_fsm,
      mapped_to_this_conductor = (\<lambda>node_uuid driver_name. True),
      get_nodeinfo_list = (\<lambda>before w. []),
      state_text = ex_state_text,
      node_power_action = (\<lambda>task ps w. (None, task, w))\<rparr>"

definition ex_node :: node where
  "ex_node =
     \<lparr>uuid = ''node-1'', driver = ''fake'', power_state = Some POWER_ON,
      target_power_state = None, provision_state = Some ACTIVE,
      target_provision_state = None, maintenance = False, maintenance_reason = None,
      reservation = None, instance_uuid = None,
      instance_info = [''kernel'' \<mapsto> PyStr ''k-1'', ''ramdisk'' \<mapsto> PyStr ''r-1'',
                       ''image_source'' \<mapsto> PyStr ''img-1''],
      console_enabled = True, last_error = Some ''an earlier failure'',
      changed_fields = {}\<rparr>"

definition ex_world_of :: "node \<Rightarrow> nat \<Rightarrow> world" where
  "ex_world_of n free = \<lparr>nodes = [''node-1'' \<mapsto> n], free_workers = free, trace = []\<rparr>"

definition ex_world :: "nat \<Rightarrow> world" where
  "ex_world free = ex_world_of ex_node free"

text \<open>Node objects as the API hands them to \<open>update_node\<close>.\<close>

definition ex_maintained :: node where
  "ex_maintained = ex_node\<lparr>maintenance := True, maintenance_reason := Some ''broken''\<rparr>"

definition ex_power_patch :: node where
  "ex_power_patch = ex_node\<lparr>power_state := Some POWER_OFF, changed_fields := {F_power_state}\<rparr>"

definition ex_maintenance_patch :: node where
  "ex_maintenance_patch = ex_maintained\<lparr>maintenance := False, changed_fields := {F_maintenance}\<rparr>"

text \<open>
  A driver that returns \<open>ERROR\<close>, one that raises, and the task of \<open>node-1\<close> with its
  reservation taken.
\<close>

definition ex_error_driver :: base_driver where
  "ex_error_driver = ex_driver\<lparr>get_power_state := (\<lambda>n. Inr (Some ERROR))\<rparr>"

definition ex_failing_driver :: base_driver where
  "ex_failing_driver = ex_driver\<lparr>get_power_state := (\<lambda>n. Inl (DriverError ''no route to BMC''))\<rparr>"

definition ex_task :: "base_driver \<Rightarrow> task" where
  "ex_task d = new_task ex_conductor ex_node d"

definition ex_locked_world :: world where
  "ex_locked_world = reserved ex_conductor ''node-1'' ex_node (ex_world 1)"

text \<open>
  Two nodes whose deploy has timed out, a conductor that lists both and has the given
  \<open>periodic_max_workers\<close>, and a store in which another conductor holds the first node.
\<close>

definition ex_waiting :: "string \<Rightarrow> node" where
  "ex_waiting node_uuid =
     ex_node\<lparr>uuid := node_uuid, provision_state := Some DEPLOYWAIT,
             target_provision_state := Some ACTIVE\<rparr>"

definition ex_two_waiting :: "nat \<Rightarrow> world" where
  "ex_two_waiting free =
     \<lparr>nodes = [''node-1'' \<mapsto> ex_waiting ''node-1'', ''node-2'' \<mapsto> ex_waiting ''node-2''],
      free_workers = free, trace = []\<rparr>"

definition ex_capped :: "int \<Rightarrow> conductor" where
  "ex_capped cap =
     ex_conductor\<lparr>periodic_max_workers := cap,
       get_nodeinfo_list := (\<lambda>before w. [(''node-1'', ''fake''), (''node-2'', ''fake'')])\<rparr>"

definition ex_other_holds :: world where
  "ex_other_holds =
     \<lparr>nodes = [''node-1'' \<mapsto> (ex_waiting ''node-1'')\<lparr>reservation := Some ''conductor-2''\<rparr>,
               ''node-2'' \<mapsto> ex_waiting ''node-2''],
      free_workers = 2, trace = []\<rparr>"



section \<open>Theorems\<close>

text \<open>
  C10, at a node whose \<open>driver_info\<close> has the three required keys and the integer 5 as
  \<open>irmc_auth_method\<close>: the value is neither \<open>'basic'\<close> nor \<open>'digest'\<close>, yet
  \<open>parse_driver_info\<close> raises \<open>AttributeError\<close> from \<open>.lower()\<close>, and not the
  \<open>InvalidParameterValue\<close> its docstring promises for an invalid value. This is so in
  each of the six orders in which the dictionary of the required keys can be iterated.
\<close>

theorem parse_driver_info_int_auth_method:
  "parse_driver_info irmc_defaults [''irmc_address'', ''irmc_username'', ''irmc_password'']
     info_int_auth = Inl AttributeError
   \<and> parse_driver_info irmc_defaults [''irmc_address'', ''irmc_password'', ''irmc_username'']
       info_int_auth = Inl AttributeError
   \<and> parse_driver_info irmc_defaults [''irmc_username'', ''irmc_address'', ''irmc_password'']
       info_int_auth = Inl AttributeError
   \<and> parse_driver_info irmc_defaults [''irmc_username'', ''irmc_password'', ''irmc_address'']
       info_int_auth = Inl AttributeError
   \<and> parse_driver_info irmc_defaults [''irmc_password'', ''irmc_address'', ''irmc_username'']
       info_int_auth = Inl AttributeError
   \<and> parse_driver_info irmc_defaults [''irmc_password'', ''irmc_username'', ''irmc_address'']
       info_int_auth = Inl AttributeError"
  by (simp add: parse_driver_info_def info_int_auth_def REQUIRED_PROPERTIES_def
      OPTIONAL_PROPERTIES_def opt_dict_def dict_get_def dict_get_default_def map_add_def
      restrict_map_def)

subsection \<open>Acquiring and leaving a task\<close>

lemma unreserve: "reservation row = None \<Longrightarrow> row\<lparr>reservation := None\<rparr> = row"
  by (cases row) simp

lemma acquire_exclusive:
  assumes "nodes w node_id = Some row" "reservation row = None"
    "drivers c (driver row) = Some d"
  shows "acquire c node_id False None w = (Inr (new_task c row d), reserved c node_id row w)"
  using assms
  by (simp add: acquire_def reserve_node_def task_node_def new_task_def reserved_def Let_def)

lemma with_task_run:
  "acquire c node_id sh dn w = (Inr t, w') \<Longrightarrow> body t w' = (res, t', w'') \<Longrightarrow>
   with_task c node_id sh dn body w = task_exit c res t' w''"
  by (simp add: with_task_def)

lemma save_row:
  "nodes w (uuid obj) = Some r \<Longrightarrow>
   save obj w = (obj\<lparr>changed_fields := {}\<rparr>,
      w\<lparr>nodes := (nodes w)(uuid obj \<mapsto> copy_changed (changed_fields obj) obj r),
        trace := trace w @ [NodeSave obj]\<rparr>)"
  by (simp add: save_def emit_def)

lemma copy_changed_power_request:
  "copy_changed {F_last_error, F_target_power_state} obj row =
     row\<lparr>target_power_state := target_power_state obj, last_error := last_error obj\<rparr>"
  by (simp add: copy_changed_def)

lemma copy_changed_power_rollback:
  "copy_changed {F_last_error, F_target_power_state, F_power_state} obj row =
     row\<lparr>power_state := power_state obj, target_power_state := target_power_state obj,
         last_error := last_error obj\<rparr>"
  by (simp add: copy_changed_def)


lemma task_exit_spawned:
  "spawn_args t = Some j \<Longrightarrow> free_workers w \<noteq> 0 \<Longrightarrow>
   task_exit c (Inr v) t w =
     (Inr v, w\<lparr>free_workers := free_workers w - 1, trace := trace w @ [Spawn j]\<rparr>)"
  by (simp add: task_exit_def spawn_worker_def emit_def)

lemma task_exit_no_worker:
  "spawn_args t = Some j \<Longrightarrow> free_workers w = 0 \<Longrightarrow>
   task_exit c (Inr v) t w =
     (case run_error_hook NoFreeConductorWorker t w of
        (t', w') \<Rightarrow> (Inl NoFreeConductorWorker, release_resources c t' w'))"
  by (simp add: task_exit_def spawn_worker_def)

text \<open>
  C1: when the node can be locked and the power interface validates,
  \<open>change_node_power_state\<close> sets \<open>target_power_state\<close> to the requested state, with
  \<open>REBOOT\<close> mapped to \<open>POWER_ON\<close>, clears \<open>last_error\<close>, saves the node and spawns
  \<open>node_power_action\<close> with the requested state; the worker keeps the reservation. When
  the pool has no free worker the call fails with \<open>NoFreeConductorWorker\<close>, and the error
  handler has saved the node with \<open>power_state\<close> as before the call, \<open>target_power_state\<close>
  \<open>NOSTATE\<close> and a \<open>last_error\<close> that starts with "No free conductor workers"; the
  reservation is released.
\<close>

theorem change_node_power_state_spawn_or_rollback:
  assumes row: "nodes w node_id = Some row" "uuid row = node_id" "reservation row = None"
    and drv: "drivers c (driver row) = Some d" "power_validate d (task_node c row) = None"
  shows "(free_workers w \<noteq> 0 \<longrightarrow>
          change_node_power_state c node_id new_state w =
            (Inr (),
             w\<lparr>nodes := (nodes w)(node_id \<mapsto>
                  row\<lparr>reservation := Some (host c),
                      target_power_state :=
                        (if new_state = Some REBOOT then Some POWER_ON else new_state),
                      last_error := None\<rparr>),
               free_workers := free_workers w - 1,
               trace := trace w @ [DriverCall ''power.validate'',
                                   NodeSave (power_request c row new_state),
                                   Spawn (NodePowerAction node_id new_state)]\<rparr>))
       \<and> (free_workers w = 0 \<longrightarrow>
          change_node_power_state c node_id new_state w =
            (Inl NoFreeConductorWorker,
             w\<lparr>nodes := (nodes w)(node_id \<mapsto>
                  row\<lparr>power_state := power_state row,
                      target_power_state := None,
                      last_error := Some (''No free conductor workers'' @ '' available'')\<rparr>),
               trace := trace w @ [DriverCall ''power.validate'',
                                   NodeSave (power_request c row new_state),
                                   NodeSave (power_rollback c row)]\<rparr>))"
proof -
  let ?t1 = "(new_task c row d)\<lparr>
      t_node := (power_request c row new_state)\<lparr>changed_fields := {}\<rparr>,
      on_error := Some (PowerStateErrorHandler (power_state row)),
      spawn_args := Some (NodePowerAction node_id new_state)\<rparr>"
  let ?w1 = "w\<lparr>nodes := (nodes w)(node_id \<mapsto> row\<lparr>reservation := Some (host c),
        target_power_state := (if new_state = Some REBOOT then Some POWER_ON else new_state),
        last_error := None\<rparr>),
      trace := trace w @ [DriverCall ''power.validate'',
                          NodeSave (power_request c row new_state)]\<rparr>"
  have acq: "acquire c node_id False None w = (Inr (new_task c row d), reserved c node_id row w)"
    using row drv by (simp add: acquire_exclusive)
  have run: "change_node_power_state c node_id new_state w = task_exit c (Inr ()) ?t1 ?w1"
    unfolding change_node_power_state_def
    apply (rule with_task_run [OF acq])
    using row drv
    apply (simp add: Let_def new_task_def reserved_def set_target_power_state_def
        set_last_error_def emit_def save_row task_node_def power_request_def
        copy_changed_power_request)
    done
  have ok: "free_workers w \<noteq> 0 \<Longrightarrow> task_exit c (Inr ()) ?t1 ?w1 =
      (Inr (), ?w1\<lparr>free_workers := free_workers ?w1 - 1,
         trace := trace ?w1 @ [Spawn (NodePowerAction node_id new_state)]\<rparr>)"
    by (rule task_exit_spawned) simp_all
  have full: "free_workers w = 0 \<Longrightarrow> task_exit c (Inr ()) ?t1 ?w1 =
      (Inl NoFreeConductorWorker,
       w\<lparr>nodes := (nodes w)(node_id \<mapsto>
            row\<lparr>target_power_state := None,
                last_error := Some ''No free conductor workers available''\<rparr>),
         trace := trace w @ [DriverCall ''power.validate'',
                             NodeSave (power_request c row new_state),
                             NodeSave (power_rollback c row)]\<rparr>)"
    using row
    by (simp add: task_exit_no_worker [where j = "NodePowerAction node_id new_state"]
        run_error_hook_def power_state_error_handler_def set_power_state_def
        set_target_power_state_def set_last_error_def Let_def save_row power_request_def
        power_rollback_def task_node_def new_task_def copy_changed_power_rollback
        release_resources_def release_node_def unreserve)
  show ?thesis
    using ok full by (simp add: run)
qed


lemma ex_lockable:
  "nodes (ex_world k) ''node-1'' = Some ex_node" "uuid ex_node = ''node-1''"
  "reservation ex_node = None" "drivers ex_conductor (driver ex_node) = Some ex_driver"
  by (simp_all add: ex_world_def ex_world_of_def ex_node_def ex_conductor_def)

lemma ex_lockable_of:
  "nodes (ex_world_of n k) ''node-1'' = Some n" "drivers ex_conductor ''fake'' = Some ex_driver"
  by (simp_all add: ex_world_of_def ex_conductor_def)

lemma ex_node_simps:
  "uuid ex_node = ''node-1''" "driver ex_node = ''fake''" "reservation ex_node = None"
  "instance_uuid ex_node = None" "power_state ex_node = Some POWER_ON"
  "maintenance ex_node = False" "console_enabled ex_node = True"
  "provision_state ex_node = Some ACTIVE"
  by (simp_all add: ex_node_def)

theorem change_node_power_state_witness:
  "nodes (ex_world 1) ''node-1'' = Some ex_node \<and> nodes (ex_world 0) ''node-1'' = Some ex_node
   \<and> reservation ex_node = None \<and> power_state ex_node = Some POWER_ON
   \<and> power_validate ex_driver (task_node ex_conductor ex_node) = None
   \<and> fst (change_node_power_state ex_conductor ''node-1'' (Some REBOOT) (ex_world 1)) = Inr ()
   \<and> map_option target_power_state
        (nodes (snd (change_node_power_state ex_conductor ''node-1'' (Some REBOOT) (ex_world 1)))
           ''node-1'') = Some (Some POWER_ON)
   \<and> map_option last_error
        (nodes (snd (change_node_power_state ex_conductor ''node-1'' (Some REBOOT) (ex_world 1)))
           ''node-1'') = Some None
   \<and> last (trace (snd (change_node_power_state ex_conductor ''node-1'' (Some REBOOT) (ex_world 1))))
        = Spawn (NodePowerAction ''node-1'' (Some REBOOT))
   \<and> fst (change_node_power_state ex_conductor ''node-1'' (Some POWER_OFF) (ex_world 0))
        = Inl NoFreeConductorWorker
   \<and> map_option power_state
        (nodes (snd (change_node_power_state ex_conductor ''node-1'' (Some POWER_OFF) (ex_world 0)))
           ''node-1'') = Some (Some POWER_ON)
   \<and> map_option target_power_state
        (nodes (snd (change_node_power_state ex_conductor ''node-1'' (Some POWER_OFF) (ex_world 0)))
           ''node-1'') = Some None
   \<and> map_option last_error
        (nodes (snd (change_node_power_state ex_conductor ''node-1'' (Some POWER_OFF) (ex_world 0)))
           ''node-1'') = Some (Some ''No free conductor workers available'')"
proof -
  have valid: "power_validate ex_driver (task_node ex_conductor ex_node) = None"
    by (simp add: ex_driver_def)
  note run = change_node_power_state_spawn_or_rollback [OF ex_lockable valid]
  have free: "free_workers (ex_world k) = k" for k
    by (simp add: ex_world_def ex_world_of_def)
  show ?thesis
    using run [of 1 "Some REBOOT"] run [of 0 "Some POWER_OFF"]
    by (simp add: free ex_lockable valid) (simp add: ex_node_def)
qed

lemma release_reserved:
  "nodes w node_id = Some row \<Longrightarrow> reservation row = None \<Longrightarrow>
   release_node (host c) node_id (reserved c node_id row w) = w"
  by (simp add: release_node_def reserved_def unreserve map_upd_triv)

lemma task_exit_raised:
  "task_exit c (Inl e) t w = (Inl e, release_resources c t w)"
  by (simp add: task_exit_def)

lemma task_exit_returned:
  "spawn_args t = None \<Longrightarrow> task_exit c (Inr v) t w = (Inr v, release_resources c t w)"
  by (simp add: task_exit_def)

lemma release_new_task:
  "uuid row = node_id \<Longrightarrow>
   release_resources c (new_task c row d) w = release_node (host c) node_id w"
  by (simp add: release_resources_def new_task_def task_node_def)

text \<open>
  C3: for a node that can be locked, \<open>destroy_node\<close> fails with \<open>NodeAssociated\<close> when
  \<open>instance_uuid\<close> is set; when it is not set and \<open>power_state\<close> is neither \<open>POWER_OFF\<close>
  nor \<open>NOSTATE\<close> it fails with \<open>NodeInWrongPowerState\<close>; both failures leave the store
  and everything else as they were. When neither check fails the row is removed, and
  \<open>get_node\<close> on it fails with \<open>NodeNotFound\<close>.
\<close>

theorem destroy_node_guards:
  assumes row: "nodes w node_id = Some row" "uuid row = node_id" "reservation row = None"
    and drv: "drivers c (driver row) = Some d"
  shows "(instance_uuid row \<noteq> None \<longrightarrow>
            destroy_node c node_id w = (Inl NodeAssociated, w))
       \<and> (instance_uuid row = None \<and> power_state row \<notin> {Some POWER_OFF, None} \<longrightarrow>
            destroy_node c node_id w = (Inl NodeInWrongPowerState, w))
       \<and> (instance_uuid row = None \<and> power_state row \<in> {Some POWER_OFF, None} \<longrightarrow>
            fst (destroy_node c node_id w) = Inr ()
            \<and> nodes (snd (destroy_node c node_id w)) = (nodes w)(node_id := None)
            \<and> get_node node_id (snd (destroy_node c node_id w)) = Inl NodeNotFound)"
proof -
  let ?t0 = "new_task c row d"
  let ?w0 = "reserved c node_id row w"
  have acq: "acquire c node_id False None w = (Inr ?t0, ?w0)"
    using row drv by (simp add: acquire_exclusive)
  have node0: "instance_uuid (t_node ?t0) = instance_uuid row"
    "power_state (t_node ?t0) = power_state row" "uuid (t_node ?t0) = node_id"
    "spawn_args ?t0 = None"
    using row by (simp_all add: new_task_def task_node_def)
  have undone: "release_resources c ?t0 ?w0 = w"
    using row by (simp add: release_new_task release_reserved)
  have associated: "destroy_node c node_id w = (Inl NodeAssociated, w)"
    if "instance_uuid row \<noteq> None"
    unfolding destroy_node_def
    by (subst with_task_run [OF acq, where res = "Inl NodeAssociated" and t' = ?t0 and w'' = ?w0])
      (use that in \<open>simp_all add: Let_def node0 task_exit_raised undone\<close>)
  have wrong: "destroy_node c node_id w = (Inl NodeInWrongPowerState, w)"
    if "instance_uuid row = None" "power_state row \<notin> {Some POWER_OFF, None}"
    unfolding destroy_node_def
    by (subst with_task_run [OF acq, where res = "Inl NodeInWrongPowerState"
          and t' = ?t0 and w'' = ?w0])
      (use that in \<open>simp_all add: Let_def node0 task_exit_raised undone\<close>)
  have destroyed: "destroy_node c node_id w =
      (Inr (), release_resources c ?t0 (destroy (t_node ?t0) ?w0))"
    if "instance_uuid row = None" "power_state row \<in> {Some POWER_OFF, None}"
    unfolding destroy_node_def
    by (subst with_task_run [OF acq, where res = "Inr ()" and t' = ?t0
          and w'' = "destroy (t_node ?t0) ?w0"])
      (use that in \<open>auto simp add: Let_def node0 task_exit_returned\<close>)
  have gone: "nodes (release_resources c ?t0 (destroy (t_node ?t0) ?w0)) = (nodes w)(node_id := None)"
    using row
    by (simp add: release_new_task release_node_def destroy_def emit_def node0 reserved_def)
  show ?thesis
    using associated wrong destroyed gone by (simp add: get_node_def)
qed

theorem destroy_node_witness:
  "instance_uuid (ex_node\<lparr>instance_uuid := Some ''abc''\<rparr>) \<noteq> None
   \<and> destroy_node ex_conductor ''node-1'' (ex_world_of (ex_node\<lparr>instance_uuid := Some ''abc''\<rparr>) 1)
       = (Inl NodeAssociated, ex_world_of (ex_node\<lparr>instance_uuid := Some ''abc''\<rparr>) 1)
   \<and> instance_uuid ex_node = None \<and> power_state ex_node \<notin> {Some POWER_OFF, None}
   \<and> destroy_node ex_conductor ''node-1'' (ex_world_of ex_node 1)
       = (Inl NodeInWrongPowerState, ex_world_of ex_node 1)
   \<and> power_state (ex_node\<lparr>power_state := Some POWER_OFF\<rparr>) \<in> {Some POWER_OFF, None}
   \<and> fst (destroy_node ex_conductor ''node-1''
             (ex_world_of (ex_node\<lparr>power_state := Some POWER_OFF\<rparr>) 1)) = Inr ()
   \<and> get_node ''node-1''
        (snd (destroy_node ex_conductor ''node-1''
                (ex_world_of (ex_node\<lparr>power_state := Some POWER_OFF\<rparr>) 1)))
       = Inl NodeNotFound"
proof -
  note run = destroy_node_guards [of "ex_world_of n k" "''node-1''" n ex_conductor ex_driver for n k]
  show ?thesis
    using run [of "ex_node\<lparr>instance_uuid := Some ''abc''\<rparr>" 1] run [of ex_node 1]
      run [of "ex_node\<lparr>power_state := Some POWER_OFF\<rparr>" 1]
    by (simp add: ex_node_simps ex_lockable_of)
qed

lemma acquire_exclusive_named:
  assumes "nodes w node_id = Some row" "reservation row = None"
    "drivers c (case driver_name of None \<Rightarrow> driver row | Some name \<Rightarrow> name) = Some d"
  shows "acquire c node_id False driver_name w =
    (Inr (new_task c row d), reserved c node_id row w)"
  using assms
  by (cases driver_name)
    (simp_all add: acquire_def reserve_node_def task_node_def new_task_def reserved_def Let_def)

lemma copy_changed_reservation:
  "copy_changed ch obj (row\<lparr>reservation := r\<rparr>) = (copy_changed ch obj row)\<lparr>reservation := r\<rparr>"
  "reservation (copy_changed ch obj row) = reservation row"
  by (simp_all add: copy_changed_def)

lemma copy_changed_maintenance:
  "F_maintenance \<in> ch \<Longrightarrow> maintenance (copy_changed ch obj row) = maintenance obj"
  "F_maintenance_reason \<in> ch \<Longrightarrow>
     maintenance_reason (copy_changed ch obj row) = maintenance_reason obj"
  by (simp_all add: copy_changed_def)

text \<open>
  C4: when the delta of the node object holds \<open>power_state\<close>, \<open>update_node\<close> fails and
  nothing is saved: the store and the trace are as before. When the delta does not hold
  \<open>power_state\<close>, holds \<open>maintenance\<close> with the value false, and the node can be
  locked, \<open>maintenance_reason\<close> is cleared on the object before it is saved, the object
  is returned, and the row then has no maintenance reason and is out of maintenance.
\<close>

theorem update_node_power_state_and_maintenance:
  "(F_power_state \<in> changed_fields node_obj \<longrightarrow>
      update_node c node_obj w = (Inl IronicException, w))
   \<and> (F_power_state \<notin> changed_fields node_obj
        \<and> F_maintenance \<in> changed_fields node_obj \<and> \<not> maintenance node_obj
        \<and> nodes w (uuid node_obj) = Some row \<and> uuid row = uuid node_obj
        \<and> reservation row = None
        \<and> drivers c (if F_driver \<in> changed_fields node_obj then driver node_obj else driver row)
            = Some d \<longrightarrow>
      (let saved = node_obj\<lparr>maintenance_reason := None,
                     changed_fields := insert F_maintenance_reason (changed_fields node_obj)\<rparr>;
           row' = copy_changed (changed_fields saved) saved row
       in update_node c node_obj w =
            (Inr (saved\<lparr>changed_fields := {}\<rparr>),
             w\<lparr>nodes := (nodes w)(uuid node_obj \<mapsto> row'),
               trace := trace w @ [NodeSave saved]\<rparr>)
          \<and> maintenance_reason saved = None
          \<and> maintenance_reason row' = None \<and> maintenance row' = False))"
proof (intro conjI impI)
  assume "F_power_state \<in> changed_fields node_obj"
  then show "update_node c node_obj w = (Inl IronicException, w)"
    by (simp add: update_node_def)
next
  assume a: "F_power_state \<notin> changed_fields node_obj
        \<and> F_maintenance \<in> changed_fields node_obj \<and> \<not> maintenance node_obj
        \<and> nodes w (uuid node_obj) = Some row \<and> uuid row = uuid node_obj
        \<and> reservation row = None
        \<and> drivers c (if F_driver \<in> changed_fields node_obj then driver node_obj else driver row)
            = Some d"
  let ?saved = "node_obj\<lparr>maintenance_reason := None,
                     changed_fields := insert F_maintenance_reason (changed_fields node_obj)\<rparr>"
  let ?dn = "if F_driver \<in> changed_fields node_obj then Some (driver node_obj) else None"
  let ?t0 = "new_task c row d"
  let ?w0 = "w\<lparr>nodes := (nodes w)(uuid node_obj \<mapsto> row\<lparr>reservation := Some (host c)\<rparr>)\<rparr>"
  have "acquire c (uuid node_obj) False ?dn w = (Inr ?t0, reserved c (uuid node_obj) row w)"
    using a by (intro acquire_exclusive_named) (simp_all split: if_splits)
  then have acq: "acquire c (uuid node_obj) False ?dn w = (Inr ?t0, ?w0)"
    by (simp add: reserved_def)
  have sv: "save ?saved ?w0 =
      (?saved\<lparr>changed_fields := {}\<rparr>,
       ?w0\<lparr>nodes := (nodes ?w0)(uuid node_obj \<mapsto>
              copy_changed (changed_fields ?saved) ?saved (row\<lparr>reservation := Some (host c)\<rparr>)),
          trace := trace ?w0 @ [NodeSave ?saved]\<rparr>)"
    using save_row [of ?w0 ?saved "row\<lparr>reservation := Some (host c)\<rparr>"]
    by simp
  have "update_node c node_obj w =
      with_task c (uuid node_obj) False ?dn
        (\<lambda>task w0. case save ?saved w0 of (node_obj2, w1) \<Rightarrow> (Inr node_obj2, task, w1)) w"
    using a
    by (simp add: update_node_def Let_def set_maintenance_reason_def split del: if_split
        cong: if_cong)
  also have "\<dots> =
      task_exit c (Inr (?saved\<lparr>changed_fields := {}\<rparr>)) ?t0 (snd (save ?saved ?w0))"
    by (rule with_task_run [OF acq]) (simp add: sv)
  finally have run: "update_node c node_obj w =
      task_exit c (Inr (?saved\<lparr>changed_fields := {}\<rparr>)) ?t0 (snd (save ?saved ?w0))" .
  have fin: "task_exit c (Inr (?saved\<lparr>changed_fields := {}\<rparr>)) ?t0 (snd (save ?saved ?w0)) =
      (Inr (?saved\<lparr>changed_fields := {}\<rparr>),
       w\<lparr>nodes := (nodes w)(uuid node_obj \<mapsto> copy_changed (changed_fields ?saved) ?saved row),
         trace := trace w @ [NodeSave ?saved]\<rparr>)"
    using a
    by (simp add: sv task_exit_def new_task_def release_resources_def task_node_def
        release_node_def copy_changed_reservation unreserve)
  show "let saved = ?saved; row' = copy_changed (changed_fields saved) saved row
       in update_node c node_obj w =
            (Inr (saved\<lparr>changed_fields := {}\<rparr>),
             w\<lparr>nodes := (nodes w)(uuid node_obj \<mapsto> row'),
               trace := trace w @ [NodeSave saved]\<rparr>)
          \<and> maintenance_reason saved = None
          \<and> maintenance_reason row' = None \<and> maintenance row' = False"
    using a unfolding Let_def run fin
    by (simp add: copy_changed_maintenance)
qed


theorem update_node_witness:
  "F_power_state \<in> changed_fields ex_power_patch
   \<and> update_node ex_conductor ex_power_patch (ex_world 1) = (Inl IronicException, ex_world 1)
   \<and> F_maintenance \<in> changed_fields ex_maintenance_patch \<and> \<not> maintenance ex_maintenance_patch
   \<and> map_option maintenance_reason (nodes (ex_world_of ex_maintained 1) ''node-1'')
       = Some (Some ''broken'')
   \<and> (case fst (update_node ex_conductor ex_maintenance_patch (ex_world_of ex_maintained 1)) of
         Inl e \<Rightarrow> False | Inr obj \<Rightarrow> maintenance_reason obj = None \<and> \<not> maintenance obj)
   \<and> map_option maintenance_reason
        (nodes (snd (update_node ex_conductor ex_maintenance_patch (ex_world_of ex_maintained 1)))
           ''node-1'') = Some None
   \<and> map_option maintenance
        (nodes (snd (update_node ex_conductor ex_maintenance_patch (ex_world_of ex_maintained 1)))
           ''node-1'') = Some False"
proof -
  have n: "uuid ex_maintenance_patch = ''node-1''" "uuid ex_maintained = ''node-1''"
    "changed_fields ex_maintenance_patch = {F_maintenance}"
    "maintenance ex_maintenance_patch = False" "reservation ex_maintained = None"
    "driver ex_maintained = ''fake''" "changed_fields ex_power_patch = {F_power_state}"
    "maintenance_reason ex_maintained = Some ''broken''"
    by (simp_all add: ex_maintenance_patch_def ex_maintained_def ex_power_patch_def ex_node_simps)
  show ?thesis
    using update_node_power_state_and_maintenance
        [of ex_power_patch ex_conductor "ex_world 1" ex_node ex_driver]
      update_node_power_state_and_maintenance
        [of ex_maintenance_patch ex_conductor "ex_world_of ex_maintained 1" ex_maintained ex_driver]
    by (simp add: n ex_lockable_of Let_def copy_changed_maintenance)
qed

subsection \<open>Traces and \<open>instance_info\<close> through an event and the end of a task\<close>

lemma extends_refl: "extends w [] w"
  by (simp add: extends_def)

lemma extends_exact:
  "trace w' = trace w @ xs \<Longrightarrow> extends w' ys w'' \<Longrightarrow> extends w (xs @ ys) w''"
  by (auto simp add: extends_def)

lemma extends_tail: "extends w xs w' \<Longrightarrow> extends w' [] w'' \<Longrightarrow> extends w xs w''"
  by (auto simp add: extends_def)

lemma extends_emit: "extends w [a] (emit a w)"
  by (simp add: extends_def emit_def)

lemma save_info:
  "F_instance_info \<notin> changed_fields obj \<Longrightarrow>
   row_instance_info (snd (save obj w)) k = row_instance_info w k"
  by (cases "nodes w (uuid obj)")
    (simp_all add: save_def emit_def row_instance_info_def copy_changed_def)

lemma save_trace: "trace (snd (save obj w)) = trace w @ [NodeSave obj]"
  by (cases "nodes w (uuid obj)") (simp_all add: save_def emit_def)

lemma save_obj: "fst (save obj w) = obj\<lparr>changed_fields := {}\<rparr>"
  by (simp add: save_def)

lemma release_node_info:
  "row_instance_info (release_node h n w) k = row_instance_info w k"
  by (cases "nodes w n") (simp_all add: release_node_def row_instance_info_def)

lemma release_node_trace: "trace (release_node h n w) = trace w"
  by (cases "nodes w n") (simp_all add: release_node_def)

lemma release_resources_info:
  "row_instance_info (release_resources c t w) k = row_instance_info w k"
  by (simp add: release_resources_def release_node_info)

lemma release_resources_trace: "trace (release_resources c t w) = trace w"
  by (simp add: release_resources_def release_node_trace)

lemma run_error_hook_info:
  assumes "F_instance_info \<notin> changed_fields (t_node t)"
  shows "row_instance_info (snd (run_error_hook e t w)) k = row_instance_info w k"
proof (cases "on_error t")
  case None
  then show ?thesis by (simp add: run_error_hook_def)
next
  case (Some h)
  show ?thesis
  proof (cases h)
    case (PowerStateErrorHandler ps)
    with Some assms show ?thesis
      by (simp add: run_error_hook_def power_state_error_handler_def Let_def split_beta
          save_info set_power_state_def set_target_power_state_def set_last_error_def)
  next
    case (ProvisioningErrorHandler prov target)
    with Some assms show ?thesis
      by (simp add: run_error_hook_def provisioning_error_handler_def Let_def split_beta
          save_info set_provision_state_def set_target_provision_state_def set_last_error_def)
  qed
qed

lemma run_error_hook_trace: "\<exists>tail. trace (snd (run_error_hook e t w)) = trace w @ tail"
proof (cases "on_error t")
  case None
  then show ?thesis by (simp add: run_error_hook_def)
next
  case (Some h)
  then show ?thesis
    by (cases h)
      (simp_all add: run_error_hook_def power_state_error_handler_def
        provisioning_error_handler_def Let_def split_beta save_trace)
qed

lemma spawn_worker_info:
  "spawn_worker j w = Inr w' \<Longrightarrow> row_instance_info w' k = row_instance_info w k"
  by (auto simp add: spawn_worker_def emit_def row_instance_info_def split: if_splits)

lemma task_exit_info:
  assumes "F_instance_info \<notin> changed_fields (t_node t)"
  shows "row_instance_info (snd (task_exit c res t w)) k = row_instance_info w k"
proof (cases res)
  case (Inl e)
  then show ?thesis by (simp add: task_exit_def release_resources_info)
next
  case (Inr v)
  show ?thesis
  proof (cases "spawn_args t")
    case None
    with Inr show ?thesis by (simp add: task_exit_def release_resources_info)
  next
    case (Some j)
    show ?thesis
    proof (cases "spawn_worker j w")
      case (Inl e)
      with Inr Some assms show ?thesis
        by (simp add: task_exit_def split_beta release_resources_info run_error_hook_info)
    next
      case (Inr w')
      with \<open>res = Inr v\<close> Some show ?thesis
        by (simp add: task_exit_def spawn_worker_info)
    qed
  qed
qed

lemma task_exit_trace: "\<exists>tail. trace (snd (task_exit c res t w)) = trace w @ tail"
proof (cases res)
  case (Inl e)
  then show ?thesis by (simp add: task_exit_def release_resources_trace)
next
  case (Inr v)
  show ?thesis
  proof (cases "spawn_args t")
    case None
    with Inr show ?thesis by (simp add: task_exit_def release_resources_trace)
  next
    case (Some j)
    with Inr run_error_hook_trace [of NoFreeConductorWorker t w] show ?thesis
      by (auto simp add: task_exit_def spawn_worker_def emit_def split_beta
          release_resources_trace)
  qed
qed

lemma process_event_invalid:
  "fsm c (provision_state (t_node t)) ev = None \<Longrightarrow>
   process_event c ev cb t w = (Inl InvalidState, t, emit (ProcessEvent (uuid (t_node t)) ev) w)"
  by (simp add: process_event_def Let_def)

lemma process_event_callback:
  "fsm c (provision_state (t_node t)) ev = Some (st, tgt) \<Longrightarrow>
   process_event c ev (Some j) t w =
     (Inr (),
      t\<lparr>t_node := (transition st tgt (t_node t))\<lparr>changed_fields := {}\<rparr>,
        spawn_args := Some j,
        on_error := Some (ProvisioningErrorHandler (provision_state (t_node t))
                            (target_provision_state (t_node t)))\<rparr>,
      snd (save (transition st tgt (t_node t)) (emit (ProcessEvent (uuid (t_node t)) ev) w)))"
  by (simp add: process_event_def Let_def split_beta save_obj transition_def
      set_provision_state_def set_target_provision_state_def set_last_error_def)

lemma emit_info: "row_instance_info (emit a w) k = row_instance_info w k"
  by (simp add: emit_def row_instance_info_def)

lemma process_event_info:
  assumes "F_instance_info \<notin> changed_fields (t_node t)"
  shows "row_instance_info (snd (snd (process_event c ev (Some j) t w))) k = row_instance_info w k"
    and "F_instance_info \<notin> changed_fields (t_node (fst (snd (process_event c ev (Some j) t w))))"
proof -
  show "row_instance_info (snd (snd (process_event c ev (Some j) t w))) k = row_instance_info w k"
  proof (cases "fsm c (provision_state (t_node t)) ev")
    case None
    then show ?thesis by (simp add: process_event_invalid emit_info)
  next
    case (Some p)
    obtain st tgt where "p = (st, tgt)" by (cases p)
    with Some assms show ?thesis
      by (simp add: process_event_callback save_info emit_info transition_def)
  qed
  show "F_instance_info \<notin> changed_fields (t_node (fst (snd (process_event c ev (Some j) t w))))"
  proof (cases "fsm c (provision_state (t_node t)) ev")
    case None
    with assms show ?thesis by (simp add: process_event_invalid)
  next
    case (Some p)
    obtain st tgt where "p = (st, tgt)" by (cases p)
    with Some show ?thesis
      by (simp add: process_event_callback)
  qed
qed

lemma process_event_trace:
  "\<exists>tail. trace (snd (snd (process_event c ev (Some j) t w))) =
      trace w @ ProcessEvent (uuid (t_node t)) ev # tail"
proof (cases "fsm c (provision_state (t_node t)) ev")
  case None
  then show ?thesis by (simp add: process_event_invalid emit_def)
next
  case (Some p)
  obtain st tgt where "p = (st, tgt)" by (cases p)
  with Some show ?thesis
    by (simp add: process_event_callback save_trace emit_def)
qed

lemma task_exit_extends: "extends w [] (snd (task_exit c res t w))"
  using task_exit_trace [of c res t w] by (simp add: extends_def)

lemma process_event_extends:
  "extends w [ProcessEvent (uuid (t_node t)) ev] (snd (snd (process_event c ev (Some j) t w)))"
  using process_event_trace [of c ev j t w] by (simp add: extends_def)

lemma process_event_task:
  "uuid (t_node (fst (snd (process_event c ev (Some j) t w)))) = uuid (t_node t)"
  "t_shared (fst (snd (process_event c ev (Some j) t w))) = t_shared t"
proof -
  show "uuid (t_node (fst (snd (process_event c ev (Some j) t w)))) = uuid (t_node t)"
  proof (cases "fsm c (provision_state (t_node t)) ev")
    case None
    then show ?thesis by (simp add: process_event_invalid)
  next
    case (Some p)
    obtain st tgt where "p = (st, tgt)" by (cases p)
    with Some show ?thesis
      by (simp add: process_event_callback transition_def)
  qed
  show "t_shared (fst (snd (process_event c ev (Some j) t w))) = t_shared t"
  proof (cases "fsm c (provision_state (t_node t)) ev")
    case None
    then show ?thesis by (simp add: process_event_invalid)
  next
    case (Some p)
    obtain st tgt where "p = (st, tgt)" by (cases p)
    with Some show ?thesis
      by (simp add: process_event_callback)
  qed
qed



lemma copy_changed_instance_info:
  "copy_changed {F_instance_info} obj row = row\<lparr>instance_info := instance_info obj\<rparr>"
  by (simp add: copy_changed_def)

lemma do_node_deploy_run:
  fixes rebuild :: bool and c :: conductor and w :: world and row :: node
  assumes row: "nodes w node_id = Some row" "uuid row = node_id" "reservation row = None"
    and drv: "drivers c (driver row) = Some d"
    and ok: "\<not> maintenance row" "power_validate d (task_node c row) = None"
      "deploy_validate d (task_node c row) = None"
  defines "w2 \<equiv> emit (DriverCall ''deploy.validate'')
                    (emit (DriverCall ''power.validate'') (reserved c node_id row w))"
  defines "node1 \<equiv> (if rebuild then (purged c row)\<lparr>changed_fields := {}\<rparr> else task_node c row)"
  defines "w3 \<equiv> (if rebuild then snd (save (purged c row) w2) else w2)"
  defines "pe \<equiv> process_event c (if rebuild then ''rebuild'' else ''deploy'')
                   (Some (DoNodeDeploy node_id)) ((new_task c row d)\<lparr>t_node := node1\<rparr>) w3"
  shows "do_node_deploy c node_id rebuild w =
           task_exit c
             (case fst pe of
                Inl e \<Rightarrow> Inl (if e = InvalidState then InstanceDeployFailure else e)
              | Inr u \<Rightarrow> Inr ())
             (fst (snd pe)) (snd (snd pe))"
proof -
  have acq: "acquire c node_id False None w =
      (Inr (new_task c row d), reserved c node_id row w)"
    using row drv by (simp add: acquire_exclusive)
  have n1: "uuid node1 = node_id"
    using row by (simp add: node1_def purged_def task_node_def)
  show ?thesis
    unfolding do_node_deploy_def
    apply (rule with_task_run [OF acq])
    using row ok
    apply (cases rebuild)
     apply (simp_all add: Let_def new_task_def [where c = c] task_node_def [symmetric] split_beta
        save_obj set_instance_info_def)
     apply (simp_all add: pe_def w3_def w2_def node1_def n1 [unfolded node1_def, simplified]
        new_task_def purged_def task_node_def save_obj split: sum.splits)
    done
qed


lemma reserved_simps:
  "trace (reserved c node_id row w) = trace w"
  "nodes (reserved c node_id row w) node_id = Some (row\<lparr>reservation := Some (host c)\<rparr>)"
  "row_instance_info (reserved c node_id row w) node_id = Some (instance_info row)"
  by (simp_all add: reserved_def row_instance_info_def)

lemma emit_simps:
  "trace (emit a w) = trace w @ [a]" "nodes (emit a w) = nodes w"
  by (simp_all add: emit_def)

text \<open>
  C5: for a node that can be locked, \<open>do_node_deploy\<close> on a node in maintenance fails with
  \<open>NodeInMaintenance\<close> and leaves the world, its trace included, as it was: no event
  reaches the state machine. For a node out of maintenance whose power and deploy
  interfaces validate, a call with \<open>rebuild\<close> saves the node with \<open>kernel\<close> and \<open>ramdisk\<close>
  removed from \<open>instance_info\<close> and only then dispatches the event \<open>rebuild\<close>, and the row
  keeps the purged \<open>instance_info\<close> whatever the event and the spawn do; a call without
  \<open>rebuild\<close> dispatches \<open>deploy\<close> with no save before it, and the row's \<open>instance_info\<close> is
  as before. The statement holds in every state of the store, so for each of two
  consecutive calls.
\<close>

theorem do_node_deploy_purge_before_event:
  assumes row: "nodes w node_id = Some row" "uuid row = node_id" "reservation row = None"
    and drv: "drivers c (driver row) = Some d"
  shows "(maintenance row \<longrightarrow>
            do_node_deploy c node_id rebuild w = (Inl NodeInMaintenance, w))
       \<and> (\<not> maintenance row \<and> power_validate d (task_node c row) = None
            \<and> deploy_validate d (task_node c row) = None \<longrightarrow>
            extends w [DriverCall ''power.validate'', DriverCall ''deploy.validate'',
                       NodeSave (purged c row), ProcessEvent node_id ''rebuild'']
              (snd (do_node_deploy c node_id True w))
            \<and> row_instance_info (snd (do_node_deploy c node_id True w)) node_id
                = Some ((instance_info row)(''kernel'' := None, ''ramdisk'' := None))
            \<and> extends w [DriverCall ''power.validate'', DriverCall ''deploy.validate'',
                         ProcessEvent node_id ''deploy'']
                (snd (do_node_deploy c node_id False w))
            \<and> row_instance_info (snd (do_node_deploy c node_id False w)) node_id
                = Some (instance_info row))"
proof (intro conjI impI)
  have acq: "acquire c node_id False None w =
      (Inr (new_task c row d), reserved c node_id row w)"
    using row drv by (simp add: acquire_exclusive)
  assume "maintenance row"
  then have "do_node_deploy c node_id rebuild w =
      task_exit c (Inl NodeInMaintenance) (new_task c row d) (reserved c node_id row w)"
    unfolding do_node_deploy_def
    by (intro with_task_run [OF acq]) (simp add: Let_def new_task_def task_node_def)
  then show "do_node_deploy c node_id rebuild w = (Inl NodeInMaintenance, w)"
    using row by (simp add: task_exit_raised release_new_task release_reserved)
next
  assume ok: "\<not> maintenance row \<and> power_validate d (task_node c row) = None
            \<and> deploy_validate d (task_node c row) = None"
  let ?w2 = "emit (DriverCall ''deploy.validate'')
               (emit (DriverCall ''power.validate'') (reserved c node_id row w))"
  let ?w3 = "snd (save (purged c row) ?w2)"
  let ?t1 = "(new_task c row d)\<lparr>t_node := (purged c row)\<lparr>changed_fields := {}\<rparr>\<rparr>"
  let ?pe = "process_event c ''rebuild'' (Some (DoNodeDeploy node_id)) ?t1 ?w3"
  let ?t2 = "(new_task c row d)\<lparr>t_node := task_node c row\<rparr>"
  let ?pd = "process_event c ''deploy'' (Some (DoNodeDeploy node_id)) ?t2 ?w2"
  have u: "uuid (t_node ?t1) = node_id" "uuid (t_node ?t2) = node_id"
    "F_instance_info \<notin> changed_fields (t_node ?t1)"
    "F_instance_info \<notin> changed_fields (t_node ?t2)"
    "uuid (purged c row) = node_id" "uuid (task_node c row) = node_id"
    using row by (simp_all add: purged_def task_node_def)
  from do_node_deploy_run [OF row drv, of True] ok
  have rb: "do_node_deploy c node_id True w =
           task_exit c
             (case fst ?pe of
                Inl e \<Rightarrow> Inl (if e = InvalidState then InstanceDeployFailure else e)
              | Inr u \<Rightarrow> Inr ())
             (fst (snd ?pe)) (snd (snd ?pe))"
    by simp
  from do_node_deploy_run [OF row drv, of False] ok
  have dp: "do_node_deploy c node_id False w =
           task_exit c
             (case fst ?pd of
                Inl e \<Rightarrow> Inl (if e = InvalidState then InstanceDeployFailure else e)
              | Inr u \<Rightarrow> Inr ())
             (fst (snd ?pd)) (snd (snd ?pd))"
    by simp
  have w3: "trace ?w3 = trace w @ [DriverCall ''power.validate'', DriverCall ''deploy.validate'',
                       NodeSave (purged c row)]"
    by (simp add: save_trace emit_simps reserved_simps)
  have w2: "trace ?w2 = trace w @ [DriverCall ''power.validate'', DriverCall ''deploy.validate'']"
    by (simp add: emit_simps reserved_simps)
  have i3: "row_instance_info ?w3 node_id
      = Some ((instance_info row)(''kernel'' := None, ''ramdisk'' := None))"
    using row
    by (simp add: save_row [where r = "row\<lparr>reservation := Some (host c)\<rparr>"] emit_simps
        reserved_simps purged_def task_node_def copy_changed_instance_info
        row_instance_info_def)
  show "extends w [DriverCall ''power.validate'', DriverCall ''deploy.validate'',
                       NodeSave (purged c row), ProcessEvent node_id ''rebuild'']
              (snd (do_node_deploy c node_id True w))"
  proof -
    have "extends ?w3 [ProcessEvent node_id ''rebuild''] (snd (snd ?pe))"
      using process_event_extends [where t = ?t1 and w = ?w3 and ev = "''rebuild''"
          and c = c and j = "DoNodeDeploy node_id"]
      by (simp add: u)
    from extends_exact [OF w3 this]
    have "extends w [DriverCall ''power.validate'', DriverCall ''deploy.validate'',
                       NodeSave (purged c row), ProcessEvent node_id ''rebuild''] (snd (snd ?pe))"
      by simp
    then show ?thesis
      unfolding rb by (rule extends_tail [OF _ task_exit_extends])
  qed
  show "row_instance_info (snd (do_node_deploy c node_id True w)) node_id
                = Some ((instance_info row)(''kernel'' := None, ''ramdisk'' := None))"
    unfolding rb using u by (simp add: task_exit_info process_event_info i3)
  show "extends w [DriverCall ''power.validate'', DriverCall ''deploy.validate'',
                         ProcessEvent node_id ''deploy'']
                (snd (do_node_deploy c node_id False w))"
  proof -
    have "extends ?w2 [ProcessEvent node_id ''deploy''] (snd (snd ?pd))"
      using process_event_extends [where t = ?t2 and w = ?w2 and ev = "''deploy''"
          and c = c and j = "DoNodeDeploy node_id"]
      by (simp add: u)
    from extends_exact [OF w2 this]
    have "extends w [DriverCall ''power.validate'', DriverCall ''deploy.validate'',
                       ProcessEvent node_id ''deploy''] (snd (snd ?pd))"
      by simp
    then show ?thesis
      unfolding dp by (rule extends_tail [OF _ task_exit_extends])
  qed
  show "row_instance_info (snd (do_node_deploy c node_id False w)) node_id
                = Some (instance_info row)"
    unfolding dp using u
    by (simp add: task_exit_info process_event_info emit_info reserved_simps)
qed



theorem do_node_deploy_witness:
  "maintenance ex_maintained
   \<and> do_node_deploy ex_conductor ''node-1'' True (ex_world_of ex_maintained 1)
       = (Inl NodeInMaintenance, ex_world_of ex_maintained 1)
   \<and> \<not> maintenance ex_node
   \<and> power_validate ex_driver (task_node ex_conductor ex_node) = None
   \<and> deploy_validate ex_driver (task_node ex_conductor ex_node) = None
   \<and> row_instance_info (ex_world 1) ''node-1''
       = Some [''kernel'' \<mapsto> PyStr ''k-1'', ''ramdisk'' \<mapsto> PyStr ''r-1'',
               ''image_source'' \<mapsto> PyStr ''img-1'']
   \<and> extends (ex_world 1)
        [DriverCall ''power.validate'', DriverCall ''deploy.validate'',
         NodeSave (purged ex_conductor ex_node), ProcessEvent ''node-1'' ''rebuild'']
        (snd (do_node_deploy ex_conductor ''node-1'' True (ex_world 1)))
   \<and> instance_info (purged ex_conductor ex_node) = [''image_source'' \<mapsto> PyStr ''img-1'']
   \<and> row_instance_info (snd (do_node_deploy ex_conductor ''node-1'' True (ex_world 1))) ''node-1''
       = Some [''image_source'' \<mapsto> PyStr ''img-1'']
   \<and> extends (ex_world 1)
        [DriverCall ''power.validate'', DriverCall ''deploy.validate'',
         ProcessEvent ''node-1'' ''deploy'']
        (snd (do_node_deploy ex_conductor ''node-1'' False (ex_world 1)))
   \<and> row_instance_info (snd (do_node_deploy ex_conductor ''node-1'' False (ex_world 1))) ''node-1''
       = Some [''kernel'' \<mapsto> PyStr ''k-1'', ''ramdisk'' \<mapsto> PyStr ''r-1'',
               ''image_source'' \<mapsto> PyStr ''img-1'']"
proof -
  have m: "maintenance ex_maintained" "uuid ex_maintained = ''node-1''"
    "reservation ex_maintained = None" "driver ex_maintained = ''fake''"
    by (simp_all add: ex_maintained_def ex_node_simps)
  have valid: "power_validate ex_driver n = None" "deploy_validate ex_driver n = None" for n
    by (simp_all add: ex_driver_def)
  have info: "instance_info ex_node
      = [''kernel'' \<mapsto> PyStr ''k-1'', ''ramdisk'' \<mapsto> PyStr ''r-1'',
         ''image_source'' \<mapsto> PyStr ''img-1'']"
    by (simp add: ex_node_def)
  have cut: "[''kernel'' \<mapsto> PyStr ''k-1'', ''ramdisk'' \<mapsto> PyStr ''r-1'',
         ''image_source'' \<mapsto> PyStr ''img-1''](''kernel'' := None, ''ramdisk'' := None)
      = [''image_source'' \<mapsto> PyStr ''img-1'']"
    by (rule ext) simp
  show ?thesis
    using do_node_deploy_purge_before_event
        [of "ex_world_of ex_maintained 1" "''node-1''" ex_maintained ex_conductor ex_driver True]
      do_node_deploy_purge_before_event
        [of "ex_world 1" "''node-1''" ex_node ex_conductor ex_driver True]
    by (simp add: m valid info cut ex_lockable ex_lockable_of ex_node_simps purged_def
        task_node_def row_instance_info_def)
qed

subsection \<open>The paths of \<open>vendor_passthru\<close>\<close>












lemma driver_calls_append: "driver_calls (xs @ ys) = driver_calls xs @ driver_calls ys"
  by (induction xs rule: driver_calls.induct) simp_all

lemma spawned_append: "spawned (xs @ ys) = spawned xs @ spawned ys"
  by (induction xs rule: spawned.induct) simp_all

lemma set_console_mode_same_run:
  assumes row: "nodes w node_id = Some row" "uuid row = node_id" "reservation row = None"
    and drv: "drivers c (driver row) = Some d"
    and con: "console d = Some console_if" "console_validate console_if (task_node c row) = None"
    and same: "enabled = console_enabled row"
  shows "set_console_mode c node_id enabled w =
           (Inr (), w\<lparr>trace := trace w @ [DriverCall ''console.validate'']\<rparr>)"
proof -
  let ?t0 = "new_task c row d"
  let ?w0 = "reserved c node_id row w"
  let ?w1 = "w\<lparr>trace := trace w @ [DriverCall ''console.validate'']\<rparr>"
  have acq: "acquire c node_id False None w = (Inr ?t0, ?w0)"
    using row drv by (simp add: acquire_exclusive)
  have t0: "t_driver ?t0 = d" "t_node ?t0 = task_node c row" "spawn_args ?t0 = None"
    "console_enabled (task_node c row) = console_enabled row"
    by (simp_all add: new_task_def task_node_def)
  have rel: "release_resources c ?t0 (emit (DriverCall ''console.validate'') ?w0) = ?w1"
    using row
    by (simp add: release_new_task release_node_def reserved_def emit_def unreserve
        map_upd_triv)
  have again: "release_resources c ?t0 ?w1 = ?w1"
    using row by (simp add: release_new_task release_node_def)
  show ?thesis
    unfolding set_console_mode_def
    by (subst with_task_run [OF acq, where res = "Inr ()" and t' = ?t0 and w'' = ?w1])
      (use con same in \<open>simp_all add: t0 Let_def rel task_exit_returned again\<close>)
qed

text \<open>
  C7, as amended: for a node that can be locked, whose driver has a console interface
  that validates, and whose \<open>console_enabled\<close> already equals the requested value,
  \<open>set_console_mode\<close> returns after the one driver call \<open>console.validate\<close>: no other
  driver call is made, no worker is spawned, the store is not modified, and the
  reservation is released.
\<close>

theorem set_console_mode_already_set:
  assumes row: "nodes w node_id = Some row" "uuid row = node_id" "reservation row = None"
    and drv: "drivers c (driver row) = Some d"
    and con: "console d = Some console_if" "console_validate console_if (task_node c row) = None"
    and same: "enabled = console_enabled row"
  shows "fst (set_console_mode c node_id enabled w) = Inr ()
       \<and> driver_calls (trace (snd (set_console_mode c node_id enabled w)))
           = driver_calls (trace w) @ [''console.validate'']
       \<and> spawned (trace (snd (set_console_mode c node_id enabled w))) = spawned (trace w)
       \<and> free_workers (snd (set_console_mode c node_id enabled w)) = free_workers w
       \<and> nodes (snd (set_console_mode c node_id enabled w)) = nodes w
       \<and> map_option reservation (nodes (snd (set_console_mode c node_id enabled w)) node_id)
           = Some None"
  using row by (simp add: set_console_mode_same_run [OF assms] driver_calls_append spawned_append)

theorem set_console_mode_witness:
  "nodes (ex_world 1) ''node-1'' = Some ex_node \<and> reservation ex_node = None
   \<and> console_enabled ex_node = True
   \<and> fst (set_console_mode ex_conductor ''node-1'' True (ex_world 1)) = Inr ()
   \<and> driver_calls (trace (snd (set_console_mode ex_conductor ''node-1'' True (ex_world 1))))
       = [''console.validate'']
   \<and> spawned (trace (snd (set_console_mode ex_conductor ''node-1'' True (ex_world 1)))) = []
   \<and> free_workers (snd (set_console_mode ex_conductor ''node-1'' True (ex_world 1))) = 1
   \<and> nodes (snd (set_console_mode ex_conductor ''node-1'' True (ex_world 1))) ''node-1''
       = Some ex_node"
proof -
  have con: "console ex_driver = Some \<lparr>console_validate = (\<lambda>n. None)\<rparr>"
    by (simp add: ex_driver_def)
  have w: "trace (ex_world k) = []" "free_workers (ex_world k) = k" for k
    by (simp_all add: ex_world_def ex_world_of_def)
  show ?thesis
    using set_console_mode_already_set [OF ex_lockable(1) [of 1] ex_lockable(2-4) con, of True]
    by (simp add: ex_lockable ex_node_simps w)
qed

text \<open>
  C7 as stated says that no driver call is made. On the node \<open>node-1\<close>, whose console is
  enabled, a request to enable it calls the driver's \<open>console.validate\<close>.
\<close>

theorem set_console_mode_calls_validate:
  "console_enabled ex_node = True
   \<and> driver_calls (trace (ex_world 1)) = []
   \<and> driver_calls (trace (snd (set_console_mode ex_conductor ''node-1'' True (ex_world 1))))
       = [''console.validate'']"
proof -
  have con: "console ex_driver = Some \<lparr>console_validate = (\<lambda>n. None)\<rparr>"
    by (simp add: ex_driver_def)
  have w: "trace (ex_world k) = []" for k
    by (simp add: ex_world_def ex_world_of_def)
  show ?thesis
    using set_console_mode_same_run [OF ex_lockable(1) [of 1] ex_lockable(2-4) con, of True]
    by (simp add: ex_node_simps w)
qed

subsection \<open>Power state synchronisation\<close>

lemma save_nodes:
  "nodes w (uuid obj) = Some r \<Longrightarrow>
   nodes (snd (save obj w)) = (nodes w)(uuid obj \<mapsto> copy_changed (changed_fields obj) obj r)"
  by (simp add: save_row)

lemma copy_changed_power_state:
  "F_power_state \<in> ch \<Longrightarrow> power_state (copy_changed ch obj row) = power_state obj"
  "F_last_error \<in> ch \<Longrightarrow> last_error (copy_changed ch obj row) = last_error obj"
  by (simp_all add: copy_changed_def)

lemma handle_sync_power_state_max_retries_exceeded_run:
  "handle_sync_power_state_max_retries_exceeded c task actual w =
     (task\<lparr>t_node := (escalated c (t_node task) actual)\<lparr>changed_fields := {}\<rparr>\<rparr>,
      snd (save (escalated c (t_node task) actual) w))"
  by (simp add: handle_sync_power_state_max_retries_exceeded_def Let_def split_beta save_obj
      escalated_def set_power_state_def set_last_error_def set_maintenance_def
      set_maintenance_reason_def max_retries_message_def)

lemma escalated_simps:
  "uuid (escalated c obj actual) = uuid obj"
  "power_state (escalated c obj actual) = actual"
  "maintenance (escalated c obj actual) = True"
  "maintenance_reason (escalated c obj actual) = Some (max_retries_message c obj actual)"
  "last_error (escalated c obj actual) = Some (max_retries_message c obj actual)"
  "F_power_state \<in> changed_fields (escalated c obj actual)"
  "F_maintenance \<in> changed_fields (escalated c obj actual)"
  "F_maintenance_reason \<in> changed_fields (escalated c obj actual)"
  "F_last_error \<in> changed_fields (escalated c obj actual)"
  by (simp_all add: escalated_def)

lemma do_sync_power_state_failed:
  assumes valid: "power_state (t_node task) = None \<Longrightarrow>
                    power_validate (t_driver task) (t_node task) = None"
    and failed: "(\<exists>e. get_power_state (t_driver task) (t_node task) = Inl e \<and> actual = None)
               \<or> (get_power_state (t_driver task) (t_node task) = Inr (Some ERROR)
                   \<and> actual = Some ERROR)"
  shows "\<exists>w2. nodes w2 = nodes w \<and> do_sync_power_state c task count w =
     (if count + 1 > power_state_sync_max_retries c
      then (Inr (count + 1),
            task\<lparr>t_node := (escalated c (t_node task) actual)\<lparr>changed_fields := {}\<rparr>\<rparr>,
            snd (save (escalated c (t_node task) actual) w2))
      else (Inr (count + 1), task, w2))"
proof (cases "power_state (t_node task) = None")
  case True
  with valid failed show ?thesis
    by (intro exI [of _ "emit (DriverCall ''power.get_power_state'')
                           (emit (DriverCall ''power.validate'') w)"])
      (auto simp add: do_sync_power_state_def Let_def emit_simps
        handle_sync_power_state_max_retries_exceeded_run)
next
  case False
  with failed show ?thesis
    by (intro exI [of _ "emit (DriverCall ''power.get_power_state'') w"])
      (auto simp add: do_sync_power_state_def Let_def emit_simps
        handle_sync_power_state_max_retries_exceeded_run)
qed


lemma recorded_escalated:
  assumes "nodes w2 (uuid obj) = Some row"
  shows "recorded (snd (save (escalated c obj actual) w2)) (uuid obj) =
     Some (actual, True, Some (max_retries_message c obj actual),
           Some (max_retries_message c obj actual))"
  using assms save_nodes [of w2 "escalated c obj actual" row]
  by (simp add: recorded_def escalated_simps copy_changed_power_state copy_changed_maintenance)

text \<open>
  C9: when the incremented count exceeds \<open>power_state_sync_max_retries\<close> and
  \<open>get_power_state\<close> raises, \<open>do_sync_power_state\<close> returns the count and the escalation
  has saved the node with \<open>power_state\<close> \<open>None\<close>, whatever was recorded before, with
  \<open>maintenance\<close> true, and with one and the same message as \<open>maintenance_reason\<close> and
  as \<open>last_error\<close>; when the driver returns \<open>ERROR\<close> instead, the same holds with
  \<open>power_state\<close> \<open>ERROR\<close>. Here \<open>actual\<close> is \<open>None\<close> in the first case and \<open>ERROR\<close> in
  the second. The message is the text of the source: it names the node, the reading, the
  state that was recorded before, in quotes, and the reading again, in quotes.
\<close>

theorem do_sync_power_state_escalation:
  assumes over: "count + 1 > power_state_sync_max_retries c"
    and row: "nodes w (uuid (t_node task)) = Some row"
    and valid: "power_state (t_node task) = None \<Longrightarrow>
                  power_validate (t_driver task) (t_node task) = None"
    and failed: "(\<exists>e. get_power_state (t_driver task) (t_node task) = Inl e \<and> actual = None)
               \<or> (get_power_state (t_driver task) (t_node task) = Inr (Some ERROR)
                   \<and> actual = Some ERROR)"
  shows "fst (do_sync_power_state c task count w) = Inr (count + 1)
       \<and> t_node (fst (snd (do_sync_power_state c task count w)))
           = (escalated c (t_node task) actual)\<lparr>changed_fields := {}\<rparr>
       \<and> power_state (escalated c (t_node task) actual) = actual
       \<and> maintenance (escalated c (t_node task) actual)
       \<and> maintenance_reason (escalated c (t_node task) actual)
           = Some (max_retries_message c (t_node task) actual)
       \<and> last_error (escalated c (t_node task) actual)
           = Some (max_retries_message c (t_node task) actual)
       \<and> recorded (snd (snd (do_sync_power_state c task count w))) (uuid (t_node task))
           = Some (actual, True, Some (max_retries_message c (t_node task) actual),
                   Some (max_retries_message c (t_node task) actual))
       \<and> max_retries_message c (t_node task) actual
           = ''During sync_power_state, max retries exceeded for node '' @ uuid (t_node task)
             @ '', node state ''
             @ (case actual of None \<Rightarrow> ''None'' | Some s \<Rightarrow> state_text c s)
             @ '' does not match expected state '' @ [CHR 0x27]
             @ (case power_state (t_node task) of None \<Rightarrow> ''None''
                | Some s \<Rightarrow> state_text c s)
             @ [CHR 0x27] @ ''. Updating DB state to '' @ [CHR 0x27]
             @ (case actual of None \<Rightarrow> ''None'' | Some s \<Rightarrow> state_text c s)
             @ [CHR 0x27] @ '' Switching node to maintenance mode.''"
proof -
  from do_sync_power_state_failed [OF valid failed, where c = c and count = count and w = w] over
  obtain w2 where w2: "nodes w2 = nodes w"
    and run: "do_sync_power_state c task count w =
       (Inr (count + 1),
        task\<lparr>t_node := (escalated c (t_node task) actual)\<lparr>changed_fields := {}\<rparr>\<rparr>,
        snd (save (escalated c (t_node task) actual) w2))"
    by auto
  from row w2 have "nodes w2 (uuid (t_node task)) = Some row"
    by simp
  from recorded_escalated [OF this, where c = c and actual = actual]
  have main: "fst (do_sync_power_state c task count w) = Inr (count + 1)
       \<and> t_node (fst (snd (do_sync_power_state c task count w)))
           = (escalated c (t_node task) actual)\<lparr>changed_fields := {}\<rparr>
       \<and> power_state (escalated c (t_node task) actual) = actual
       \<and> maintenance (escalated c (t_node task) actual)
       \<and> maintenance_reason (escalated c (t_node task) actual)
           = Some (max_retries_message c (t_node task) actual)
       \<and> last_error (escalated c (t_node task) actual)
           = Some (max_retries_message c (t_node task) actual)
       \<and> recorded (snd (snd (do_sync_power_state c task count w))) (uuid (t_node task))
           = Some (actual, True, Some (max_retries_message c (t_node task) actual),
                   Some (max_retries_message c (t_node task) actual))"
    by (simp add: run escalated_simps)
  have wording: "max_retries_message c (t_node task) actual
           = ''During sync_power_state, max retries exceeded for node '' @ uuid (t_node task)
             @ '', node state ''
             @ (case actual of None \<Rightarrow> ''None'' | Some s \<Rightarrow> state_text c s)
             @ '' does not match expected state '' @ [CHR 0x27]
             @ (case power_state (t_node task) of None \<Rightarrow> ''None''
                | Some s \<Rightarrow> state_text c s)
             @ [CHR 0x27] @ ''. Updating DB state to '' @ [CHR 0x27]
             @ (case actual of None \<Rightarrow> ''None'' | Some s \<Rightarrow> state_text c s)
             @ [CHR 0x27] @ '' Switching node to maintenance mode.''"
    unfolding max_retries_message_def str_power_state_def quoted_def by simp
  from main wording show ?thesis
    by (elim conjE) (intro conjI; assumption)
qed

lemma ex_task_simps:
  "t_node (ex_task d) = task_node ex_conductor ex_node" "t_driver (ex_task d) = d"
  "uuid (task_node ex_conductor ex_node) = ''node-1''"
  "power_state (task_node ex_conductor ex_node) = Some POWER_ON"
  "nodes ex_locked_world ''node-1'' = Some (ex_node\<lparr>reservation := Some (host ex_conductor)\<rparr>)"
  "power_state (ex_node\<lparr>reservation := Some (host ex_conductor)\<rparr>) = Some POWER_ON"
  "get_power_state ex_error_driver n = Inr (Some ERROR)"
  "get_power_state ex_failing_driver n = Inl (DriverError ''no route to BMC'')"
  "get_power_state ex_driver n = Inr (Some POWER_OFF)"
  "power_state_sync_max_retries ex_conductor = 3"
  "\<not> force_power_state_during_sync ex_conductor"
  by (simp_all add: ex_task_def new_task_def task_node_def ex_node_simps ex_locked_world_def
      reserved_simps ex_error_driver_def ex_failing_driver_def ex_driver_def ex_conductor_def)

lemma ex_state_text_simps:
  "state_text ex_conductor POWER_ON = ''power on''"
  "state_text ex_conductor ERROR = ''error''"
  by (simp_all add: ex_conductor_def ex_state_text_def)

theorem do_sync_power_state_escalation_witness:
  "power_state_sync_max_retries ex_conductor < 3 + 1
   \<and> recorded ex_locked_world ''node-1'' = Some (Some POWER_ON, False, None, Some ''an earlier failure'')
   \<and> get_power_state ex_failing_driver (t_node (ex_task ex_failing_driver))
       = Inl (DriverError ''no route to BMC'')
   \<and> fst (do_sync_power_state ex_conductor (ex_task ex_failing_driver) 3 ex_locked_world) = Inr 4
   \<and> recorded (snd (snd (do_sync_power_state ex_conductor (ex_task ex_failing_driver) 3
                            ex_locked_world))) ''node-1''
       = Some (None, True,
               Some (''During sync_power_state, max retries exceeded for node node-1, ''
                     @ ''node state None does not match expected state '' @ [CHR 0x27]
                     @ ''power on'' @ [CHR 0x27] @ ''. Updating DB state to '' @ [CHR 0x27]
                     @ ''None'' @ [CHR 0x27] @ '' Switching node to maintenance mode.''),
               Some (''During sync_power_state, max retries exceeded for node node-1, ''
                     @ ''node state None does not match expected state '' @ [CHR 0x27]
                     @ ''power on'' @ [CHR 0x27] @ ''. Updating DB state to '' @ [CHR 0x27]
                     @ ''None'' @ [CHR 0x27] @ '' Switching node to maintenance mode.''))
   \<and> get_power_state ex_error_driver (t_node (ex_task ex_error_driver)) = Inr (Some ERROR)
   \<and> fst (do_sync_power_state ex_conductor (ex_task ex_error_driver) 3 ex_locked_world) = Inr 4
   \<and> recorded (snd (snd (do_sync_power_state ex_conductor (ex_task ex_error_driver) 3
                            ex_locked_world))) ''node-1''
       = Some (Some ERROR, True,
               Some (''During sync_power_state, max retries exceeded for node node-1, ''
                     @ ''node state error does not match expected state '' @ [CHR 0x27]
                     @ ''power on'' @ [CHR 0x27] @ ''. Updating DB state to '' @ [CHR 0x27]
                     @ ''error'' @ [CHR 0x27] @ '' Switching node to maintenance mode.''),
               Some (''During sync_power_state, max retries exceeded for node node-1, ''
                     @ ''node state error does not match expected state '' @ [CHR 0x27]
                     @ ''power on'' @ [CHR 0x27] @ ''. Updating DB state to '' @ [CHR 0x27]
                     @ ''error'' @ [CHR 0x27] @ '' Switching node to maintenance mode.''))"
proof -
  have before: "recorded ex_locked_world ''node-1''
      = Some (Some POWER_ON, False, None, Some ''an earlier failure'')"
    by (simp add: recorded_def ex_task_simps) (simp add: ex_node_def)
  show ?thesis
    using do_sync_power_state_escalation
        [of ex_conductor 3 ex_locked_world "ex_task ex_failing_driver" _ None]
      do_sync_power_state_escalation
        [of ex_conductor 3 ex_locked_world "ex_task ex_error_driver" _ "Some ERROR"]
    by (simp add: ex_task_simps before ex_state_text_simps)
qed

text \<open>
  C2, as amended: with \<open>force_power_state_during_sync\<close> false, whenever \<open>get_power_state\<close>
  returns a reading other than \<open>ERROR\<close>, \<open>do_sync_power_state\<close> returns without raising
  and the recorded power state is the reading afterwards, on the node object and in the
  row: with no prior state the reading is recorded and the count is 0, with a matching
  state the store does not change and the count is 0, and on a mismatch the recorded state
  is overwritten and the incremented count returned.
\<close>

theorem do_sync_power_state_records_reading:
  assumes nforce: "\<not> force_power_state_during_sync c"
    and row: "nodes w (uuid (t_node task)) = Some row"
      "power_state row = power_state (t_node task)"
    and valid: "power_state (t_node task) = None \<Longrightarrow>
                  power_validate (t_driver task) (t_node task) = None"
    and reading: "get_power_state (t_driver task) (t_node task) = Inr ps" "ps \<noteq> Some ERROR"
  shows "fst (do_sync_power_state c task count w) =
           Inr (if power_state (t_node task) = None \<or> power_state (t_node task) = ps
                then 0 else count + 1)
       \<and> power_state (t_node (fst (snd (do_sync_power_state c task count w)))) = ps
       \<and> map_option power_state
            (nodes (snd (snd (do_sync_power_state c task count w))) (uuid (t_node task)))
           = Some ps
       \<and> (power_state (t_node task) = ps \<and> ps \<noteq> None \<longrightarrow>
            nodes (snd (snd (do_sync_power_state c task count w))) = nodes w)"
proof -
  let ?n = "t_node task"
  consider (fresh) "power_state ?n = None"
    | (same) "power_state ?n \<noteq> None" "power_state ?n = ps"
    | (over) "power_state ?n \<noteq> None" "power_state ?n \<noteq> ps"
        "count + 1 > power_state_sync_max_retries c"
    | (drift) "power_state ?n \<noteq> None" "power_state ?n \<noteq> ps"
        "\<not> count + 1 > power_state_sync_max_retries c"
    by blast
  then show ?thesis
  proof cases
    case fresh
    with row valid reading show ?thesis
      by (auto simp add: do_sync_power_state_def Let_def split_beta save_obj save_nodes emit_simps
          set_power_state_def copy_changed_power_state)
  next
    case same
    with row reading show ?thesis
      by (auto simp add: do_sync_power_state_def Let_def emit_simps)
  next
    case over
    with row reading show ?thesis
      by (auto simp add: do_sync_power_state_def Let_def emit_simps save_nodes
          handle_sync_power_state_max_retries_exceeded_run escalated_simps
          copy_changed_power_state)
  next
    case drift
    with row reading nforce show ?thesis
      by (auto simp add: do_sync_power_state_def Let_def split_beta save_obj save_nodes emit_simps
          set_power_state_def copy_changed_power_state)
  qed
qed


theorem do_sync_power_state_records_reading_witness:
  "\<not> force_power_state_during_sync ex_conductor
   \<and> map_option power_state (nodes ex_locked_world ''node-1'') = Some (Some POWER_ON)
   \<and> get_power_state ex_driver (t_node (ex_task ex_driver)) = Inr (Some POWER_OFF)
   \<and> fst (do_sync_power_state ex_conductor (ex_task ex_driver) 0 ex_locked_world) = Inr 1
   \<and> map_option power_state
        (nodes (snd (snd (do_sync_power_state ex_conductor (ex_task ex_driver) 0 ex_locked_world)))
           ''node-1'') = Some (Some POWER_OFF)"
  using do_sync_power_state_records_reading
    [of ex_conductor ex_locked_world "ex_task ex_driver" _ "Some POWER_OFF" 0]
  by (simp add: ex_task_simps)

text \<open>
  C2 as stated fails when the driver returns \<open>ERROR\<close> below the retry limit: with
  \<open>POWER_ON\<close> recorded and no earlier failure, \<open>do_sync_power_state\<close> returns the count 1
  without raising, and the recorded state is still \<open>POWER_ON\<close>, not the reading.
\<close>

theorem do_sync_power_state_error_reading:
  "\<not> force_power_state_during_sync ex_conductor
   \<and> map_option power_state (nodes ex_locked_world ''node-1'') = Some (Some POWER_ON)
   \<and> get_power_state ex_error_driver (t_node (ex_task ex_error_driver)) = Inr (Some ERROR)
   \<and> fst (do_sync_power_state ex_conductor (ex_task ex_error_driver) 0 ex_locked_world) = Inr 1
   \<and> map_option power_state
        (nodes (snd (snd (do_sync_power_state ex_conductor (ex_task ex_error_driver) 0
                            ex_locked_world))) ''node-1'') = Some (Some POWER_ON)"
proof -
  from do_sync_power_state_failed
    [where task = "ex_task ex_error_driver" and actual = "Some ERROR" and c = ex_conductor
      and count = 0 and w = ex_locked_world]
  obtain w2 where "nodes w2 = nodes ex_locked_world"
    and "do_sync_power_state ex_conductor (ex_task ex_error_driver) 0 ex_locked_world
          = (Inr 1, ex_task ex_error_driver, w2)"
    by (auto simp add: ex_task_simps)
  then show ?thesis
    by (simp add: ex_task_simps)
qed

subsection \<open>Deploy timeouts\<close>

lemma fail_events_append: "fail_events (xs @ ys) = fail_events xs + fail_events ys"
  by (induction xs rule: fail_events.induct) simp_all

lemma fail_events_save: "fail_events (trace (snd (save obj w))) = fail_events (trace w)"
  by (simp add: save_trace fail_events_append)

lemma fail_events_run_error_hook:
  "fail_events (trace (snd (run_error_hook e t w))) = fail_events (trace w)"
proof (cases "on_error t")
  case None
  then show ?thesis by (simp add: run_error_hook_def)
next
  case (Some h)
  then show ?thesis
    by (cases h)
      (simp_all add: run_error_hook_def power_state_error_handler_def
        provisioning_error_handler_def Let_def split_beta fail_events_save)
qed

lemma fail_events_task_exit:
  "fail_events (trace (snd (task_exit c res t w))) = fail_events (trace w)"
proof (cases res)
  case (Inl e)
  then show ?thesis by (simp add: task_exit_def release_resources_trace)
next
  case (Inr v)
  show ?thesis
  proof (cases "spawn_args t")
    case None
    with Inr show ?thesis by (simp add: task_exit_def release_resources_trace)
  next
    case (Some j)
    with Inr show ?thesis
      by (simp add: task_exit_def spawn_worker_def emit_def split_beta release_resources_trace
          fail_events_run_error_hook fail_events_append)
  qed
qed

lemma task_exit_result:
  "fst (task_exit c res t w) = res \<or> fst (task_exit c res t w) = Inl NoFreeConductorWorker"
  by (cases res; cases "spawn_args t")
    (simp_all add: task_exit_def spawn_worker_def split_beta)

lemma fail_events_process_event:
  "fail_events (trace (snd (snd (process_event c ''fail'' (Some j) t w))))
     = fail_events (trace w) + 1"
proof (cases "fsm c (provision_state (t_node t)) ''fail''")
  case None
  then show ?thesis
    by (simp add: process_event_invalid emit_simps fail_events_append)
next
  case (Some p)
  obtain st tgt where "p = (st, tgt)" by (cases p)
  with Some show ?thesis
    by (simp add: process_event_callback fail_events_save emit_simps fail_events_append)
qed

lemma process_event_result:
  "fst (process_event c ev (Some j) t w) = Inl InvalidState
   \<or> fst (process_event c ev (Some j) t w) = Inr ()"
proof (cases "fsm c (provision_state (t_node t)) ev")
  case None
  then show ?thesis by (simp add: process_event_invalid)
next
  case (Some p)
  obtain st tgt where "p = (st, tgt)" by (cases p)
  with Some show ?thesis by (simp add: process_event_callback)
qed

lemma acquire_trace: "trace (snd (acquire c node_id sh dn w)) = trace w"
  by (auto simp add: acquire_def get_node_def reserve_node_def Let_def release_node_trace
      split: option.splits sum.splits if_splits)

lemma check_deploy_timeouts_node_events:
  "fail_events (trace (snd (check_deploy_timeouts_node c node_uuid w)))
     \<le> fail_events (trace w) + 1"
  "fst (check_deploy_timeouts_node c node_uuid w) \<in> {Inl NodeLocked, Inl NodeNotFound, Inr False}
   \<Longrightarrow> fail_events (trace (snd (check_deploy_timeouts_node c node_uuid w)))
         = fail_events (trace w)"
proof -
  obtain a w0 where acq: "acquire c node_uuid False None w = (a, w0)"
    by (cases "acquire c node_uuid False None w")
  from acquire_trace [of c node_uuid False None w] acq have w0: "trace w0 = trace w"
    by simp
  show "fail_events (trace (snd (check_deploy_timeouts_node c node_uuid w)))
     \<le> fail_events (trace w) + 1"
  proof (cases a)
    case (Inl e)
    with acq w0 show ?thesis
      by (simp add: check_deploy_timeouts_node_def with_task_def)
  next
    case (Inr task)
    with acq w0 show ?thesis
      by (simp add: check_deploy_timeouts_node_def with_task_def split_beta
          fail_events_task_exit fail_events_process_event split: sum.splits)
  qed
  assume skip: "fst (check_deploy_timeouts_node c node_uuid w)
      \<in> {Inl NodeLocked, Inl NodeNotFound, Inr False}"
  show "fail_events (trace (snd (check_deploy_timeouts_node c node_uuid w)))
         = fail_events (trace w)"
  proof (cases a)
    case (Inl e)
    with acq w0 show ?thesis
      by (simp add: check_deploy_timeouts_node_def with_task_def)
  next
    case (Inr task)
    show ?thesis
    proof (cases "maintenance (t_node task) \<or> provision_state (t_node task) \<noteq> Some DEPLOYWAIT")
      case True
      with acq w0 Inr show ?thesis
        by (simp add: check_deploy_timeouts_node_def with_task_def fail_events_task_exit)
    next
      case False
      let ?pe = "process_event c ''fail'' (Some (CleanupAfterTimeout (uuid (t_node task)))) task w0"
      let ?res = "case fst ?pe of Inl e \<Rightarrow> Inl e | Inr u \<Rightarrow> Inr True"
      from False acq Inr
      have run: "check_deploy_timeouts_node c node_uuid w
          = task_exit c ?res (fst (snd ?pe)) (snd (snd ?pe))"
        by (simp add: check_deploy_timeouts_node_def with_task_def split_beta split: sum.splits)
      from process_event_result
        [of c "''fail''" "CleanupAfterTimeout (uuid (t_node task))" task w0]
      have "?res = Inl InvalidState \<or> ?res = Inr True"
        by auto
      with task_exit_result [of c ?res "fst (snd ?pe)" "snd (snd ?pe)"] skip
      have False
        unfolding run by auto
      then show ?thesis ..
    qed
  qed
qed


lemma check_deploy_timeouts_loop_bound:
  "0 \<le> workers_count \<Longrightarrow> workers_count < periodic_max_workers c \<Longrightarrow>
   fail_events (trace (snd (check_deploy_timeouts_loop c node_list workers_count w)))
     \<le> fail_events (trace w) + nat (periodic_max_workers c - workers_count)"
proof (induction node_list arbitrary: workers_count w)
  case Nil
  then show ?case by simp
next
  case (Cons entry node_list)
  obtain node_uuid driver_name where entry: "entry = (node_uuid, driver_name)"
    by (cases entry)
  obtain res w' where node: "check_deploy_timeouts_node c node_uuid w = (res, w')"
    by (cases "check_deploy_timeouts_node c node_uuid w")
  from check_deploy_timeouts_node_events(1) [of c node_uuid w] node
  have step: "fail_events (trace w') \<le> fail_events (trace w) + 1"
    by simp
  from check_deploy_timeouts_node_events(2) [of c node_uuid w] node
  have skip: "res \<in> {Inl NodeLocked, Inl NodeNotFound, Inr False} \<Longrightarrow>
      fail_events (trace w') = fail_events (trace w)"
    by simp
  have room: "1 \<le> nat (periodic_max_workers c - workers_count)"
    using Cons.prems by simp
  note ih = Cons.IH [OF Cons.prems]
  show ?case
  proof (cases "mapped_to_this_conductor c node_uuid driver_name")
    case False
    with ih [of w] entry show ?thesis by simp
  next
    case True
    show ?thesis
    proof (cases res)
      case (Inl e)
      consider (full) "e = NoFreeConductorWorker" | (locked) "e = NodeLocked"
        | (gone) "e = NodeNotFound"
        | (other) "e \<noteq> NoFreeConductorWorker" "e \<noteq> NodeLocked" "e \<noteq> NodeNotFound"
        by blast
      then show ?thesis
      proof cases
        case full
        with True Inl entry node step room show ?thesis by simp
      next
        case locked
        with True Inl entry node skip ih [of w'] show ?thesis by simp
      next
        case gone
        with True Inl entry node skip ih [of w'] show ?thesis by simp
      next
        case other
        with True Inl entry node step room show ?thesis by (cases e) simp_all
      qed
    next
      case (Inr continued)
      show ?thesis
      proof (cases continued)
        case False
        with True Inr entry node skip ih [of w'] show ?thesis by simp
      next
        case ran: True
        show ?thesis
        proof (cases "workers_count + 1 = periodic_max_workers c")
          case True
          with \<open>mapped_to_this_conductor c node_uuid driver_name\<close> Inr ran entry node step room
          show ?thesis by simp
        next
          case False
          with Cons.prems have "0 \<le> workers_count + 1"
            "workers_count + 1 < periodic_max_workers c"
            by simp_all
          from Cons.IH [OF this, of w'] step Cons.prems
          have "fail_events (trace (snd (check_deploy_timeouts_loop c node_list
                  (workers_count + 1) w')))
              \<le> fail_events (trace w) + nat (periodic_max_workers c - workers_count)"
            by (simp add: nat_diff_distrib')
          with \<open>mapped_to_this_conductor c node_uuid driver_name\<close> Inr ran entry node False
          show ?thesis by simp
        qed
      qed
    qed
  qed
qed


lemma copy_changed_transition:
  "copy_changed {F_last_error, F_target_provision_state, F_provision_state} obj row =
     row\<lparr>provision_state := provision_state obj,
         target_provision_state := target_provision_state obj, last_error := last_error obj\<rparr>"
  by (simp add: copy_changed_def)

lemma check_deploy_timeouts_node_run:
  assumes row: "nodes w node_uuid = Some row" "uuid row = node_uuid" "reservation row = None"
    and drv: "drivers c (driver row) = Some d"
    and waiting: "\<not> maintenance row" "provision_state row = Some DEPLOYWAIT"
    and legal: "fsm c (Some DEPLOYWAIT) ''fail'' = Some (st, tgt)"
  shows "check_deploy_timeouts_node c node_uuid w =
     task_exit c (Inr True)
       ((new_task c row d)\<lparr>
          t_node := (transition st tgt (task_node c row))\<lparr>changed_fields := {}\<rparr>,
          spawn_args := Some (CleanupAfterTimeout node_uuid),
          on_error := Some (ProvisioningErrorHandler (Some DEPLOYWAIT)
                              (target_provision_state row))\<rparr>)
       (w\<lparr>nodes := (nodes w)(node_uuid \<mapsto>
            row\<lparr>reservation := Some (host c), provision_state := st,
                target_provision_state := tgt, last_error := None\<rparr>),
          trace := trace w @ [ProcessEvent node_uuid ''fail'',
                              NodeSave (transition st tgt (task_node c row))]\<rparr>)"
proof -
  have acq: "acquire c node_uuid False None w =
      (Inr (new_task c row d), reserved c node_uuid row w)"
    using row drv by (simp add: acquire_exclusive)
  have t0: "t_node (new_task c row d) = task_node c row"
    "maintenance (task_node c row) = maintenance row"
    "provision_state (task_node c row) = provision_state row"
    "target_provision_state (task_node c row) = target_provision_state row"
    "uuid (task_node c row) = node_uuid"
    "changed_fields (task_node c row) = {}"
    using row by (simp_all add: new_task_def task_node_def)
  have sv: "snd (save (transition st tgt (task_node c row))
                   (emit (ProcessEvent node_uuid ''fail'') (reserved c node_uuid row w))) =
      w\<lparr>nodes := (nodes w)(node_uuid \<mapsto>
            row\<lparr>reservation := Some (host c), provision_state := st,
                target_provision_state := tgt, last_error := None\<rparr>),
        trace := trace w @ [ProcessEvent node_uuid ''fail'',
                            NodeSave (transition st tgt (task_node c row))]\<rparr>"
    using row
    by (simp add: save_row [where r = "row\<lparr>reservation := Some (host c)\<rparr>"] emit_def
        reserved_def transition_def t0 copy_changed_transition)
  show ?thesis
    unfolding check_deploy_timeouts_node_def
    apply (rule with_task_run [OF acq])
    using waiting legal
    apply (simp add: t0 process_event_callback sv)
    done
qed

lemma check_deploy_timeouts_node_spawned:
  assumes row: "nodes w node_uuid = Some row" "uuid row = node_uuid" "reservation row = None"
    and drv: "drivers c (driver row) = Some d"
    and waiting: "\<not> maintenance row" "provision_state row = Some DEPLOYWAIT"
    and legal: "fsm c (Some DEPLOYWAIT) ''fail'' = Some (st, tgt)"
    and free: "free_workers w \<noteq> 0"
  shows "check_deploy_timeouts_node c node_uuid w =
     (Inr True,
      w\<lparr>nodes := (nodes w)(node_uuid \<mapsto>
            row\<lparr>reservation := Some (host c), provision_state := st,
                target_provision_state := tgt, last_error := None\<rparr>),
        free_workers := free_workers w - 1,
        trace := trace w @ [ProcessEvent node_uuid ''fail'',
                            NodeSave (transition st tgt (task_node c row)),
                            Spawn (CleanupAfterTimeout node_uuid)]\<rparr>)"
  using free
  by (simp add: check_deploy_timeouts_node_run [OF row drv waiting legal]
      task_exit_spawned [where j = "CleanupAfterTimeout node_uuid"])

lemma check_deploy_timeouts_node_no_worker:
  assumes row: "nodes w node_uuid = Some row" "uuid row = node_uuid" "reservation row = None"
    and drv: "drivers c (driver row) = Some d"
    and waiting: "\<not> maintenance row" "provision_state row = Some DEPLOYWAIT"
    and legal: "fsm c (Some DEPLOYWAIT) ''fail'' = Some (st, tgt)"
    and full: "free_workers w = 0"
  shows "fst (check_deploy_timeouts_node c node_uuid w) = Inl NoFreeConductorWorker"
  using full
  by (simp add: check_deploy_timeouts_node_run [OF row drv waiting legal]
      task_exit_no_worker [where j = "CleanupAfterTimeout node_uuid"] split_beta)

lemma check_deploy_timeouts_node_locked:
  "nodes w node_uuid = Some row \<Longrightarrow> reservation row = Some holder \<Longrightarrow>
   check_deploy_timeouts_node c node_uuid w = (Inl NodeLocked, w)"
  by (simp add: check_deploy_timeouts_node_def with_task_def acquire_def reserve_node_def)

text \<open>
  What the periodic task keeps of its cap. With \<open>deploy_callback_timeout\<close> 0 it returns
  at once and the world, its trace included, is as before: no node is listed or touched.
  With a \<open>periodic_max_workers\<close> of at least 1, one tick dispatches at most
  \<open>periodic_max_workers\<close> events \<open>fail\<close>. In the loop, a node whose task fails with
  \<open>NodeLocked\<close> or \<open>NodeNotFound\<close> is passed over with the count of workers unchanged,
  and \<open>NoFreeConductorWorker\<close> ends the loop without a look at the remaining nodes.
\<close>

theorem check_deploy_timeouts_cap:
  "(deploy_callback_timeout c = 0 \<longrightarrow> check_deploy_timeouts c w = (None, w))
   \<and> (deploy_callback_timeout c \<noteq> 0 \<and> 0 < periodic_max_workers c \<longrightarrow>
        fail_events (trace (snd (check_deploy_timeouts c w)))
          \<le> fail_events (trace w) + nat (periodic_max_workers c))
   \<and> (mapped_to_this_conductor c node_uuid driver_name
        \<and> fst (check_deploy_timeouts_node c node_uuid w) \<in> {Inl NodeLocked, Inl NodeNotFound} \<longrightarrow>
        check_deploy_timeouts_loop c ((node_uuid, driver_name) # node_list) workers_count w
          = check_deploy_timeouts_loop c node_list workers_count
              (snd (check_deploy_timeouts_node c node_uuid w)))
   \<and> (mapped_to_this_conductor c node_uuid driver_name
        \<and> fst (check_deploy_timeouts_node c node_uuid w) = Inl NoFreeConductorWorker \<longrightarrow>
        check_deploy_timeouts_loop c ((node_uuid, driver_name) # node_list) workers_count w
          = (None, snd (check_deploy_timeouts_node c node_uuid w)))"
proof (intro conjI impI)
  assume "deploy_callback_timeout c = 0"
  then show "check_deploy_timeouts c w = (None, w)"
    by (simp add: check_deploy_timeouts_def)
next
  assume "deploy_callback_timeout c \<noteq> 0 \<and> 0 < periodic_max_workers c"
  with check_deploy_timeouts_loop_bound
    [of 0 c "get_nodeinfo_list c (deploy_callback_timeout c) w" "emit NodeInfoList w"]
  show "fail_events (trace (snd (check_deploy_timeouts c w)))
          \<le> fail_events (trace w) + nat (periodic_max_workers c)"
    by (simp add: check_deploy_timeouts_def Let_def emit_simps fail_events_append)
next
  assume "mapped_to_this_conductor c node_uuid driver_name
        \<and> fst (check_deploy_timeouts_node c node_uuid w) \<in> {Inl NodeLocked, Inl NodeNotFound}"
  then show "check_deploy_timeouts_loop c ((node_uuid, driver_name) # node_list) workers_count w
          = check_deploy_timeouts_loop c node_list workers_count
              (snd (check_deploy_timeouts_node c node_uuid w))"
    by (cases "check_deploy_timeouts_node c node_uuid w") auto
next
  assume "mapped_to_this_conductor c node_uuid driver_name
        \<and> fst (check_deploy_timeouts_node c node_uuid w) = Inl NoFreeConductorWorker"
  then show "check_deploy_timeouts_loop c ((node_uuid, driver_name) # node_list) workers_count w
          = (None, snd (check_deploy_timeouts_node c node_uuid w))"
    by (cases "check_deploy_timeouts_node c node_uuid w") auto
qed


lemma ex_capped_simps:
  "periodic_max_workers (ex_capped cap) = cap" "deploy_callback_timeout (ex_capped cap) = 1800"
  "get_nodeinfo_list (ex_capped cap) before w = [(''node-1'', ''fake''), (''node-2'', ''fake'')]"
  "mapped_to_this_conductor (ex_capped cap) node_uuid driver_name"
  "drivers (ex_capped cap) ''fake'' = Some ex_driver"
  "fsm (ex_capped cap) (Some DEPLOYWAIT) ''fail'' = Some (Some DEPLOYFAIL, None)"
  "host (ex_capped cap) = ''conductor-1''"
  by (simp_all add: ex_capped_def ex_conductor_def ex_fsm_def)

lemma ex_waiting_simps:
  "uuid (ex_waiting node_uuid) = node_uuid" "reservation (ex_waiting node_uuid) = None"
  "driver (ex_waiting node_uuid) = ''fake''" "\<not> maintenance (ex_waiting node_uuid)"
  "provision_state (ex_waiting node_uuid) = Some DEPLOYWAIT"
  by (simp_all add: ex_waiting_def ex_node_simps)

lemma ex_two_waiting_simps:
  "nodes (ex_two_waiting free) ''node-1'' = Some (ex_waiting ''node-1'')"
  "nodes (ex_two_waiting free) ''node-2'' = Some (ex_waiting ''node-2'')"
  "free_workers (ex_two_waiting free) = free" "trace (ex_two_waiting free) = []"
  by (simp_all add: ex_two_waiting_def)

lemma check_deploy_timeouts_loop_spawned:
  "check_deploy_timeouts_node c node_uuid w = (Inr True, w') \<Longrightarrow>
   mapped_to_this_conductor c node_uuid driver_name \<Longrightarrow>
   workers_count + 1 \<noteq> periodic_max_workers c \<Longrightarrow>
   check_deploy_timeouts_loop c ((node_uuid, driver_name) # node_list) workers_count w
     = check_deploy_timeouts_loop c node_list (workers_count + 1) w'"
  by simp

text \<open>
  C8: the events \<open>fail\<close> of one tick are to be at most \<open>periodic_max_workers\<close>, the
  option that its help text calls the maximum number of worker threads that a periodic
  task can start. The code does not keep this bound at \<open>periodic_max_workers\<close> 0: the
  count of workers is compared with the limit after it is incremented, so it never equals
  a limit of 0. With \<open>deploy_callback_timeout\<close> 1800, two timed-out nodes in
  \<open>DEPLOYWAIT\<close> and two free workers, one tick dispatches two events \<open>fail\<close> and starts
  two workers, where the limit allows none.
\<close>

theorem check_deploy_timeouts_uncapped:
  "periodic_max_workers (ex_capped 0) = 0 \<and> deploy_callback_timeout (ex_capped 0) \<noteq> 0
   \<and> fail_events (trace (ex_two_waiting 2)) = 0
   \<and> free_workers (ex_two_waiting 2) = 2
   \<and> fail_events (trace (snd (check_deploy_timeouts (ex_capped 0) (ex_two_waiting 2)))) = 2
   \<and> free_workers (snd (check_deploy_timeouts (ex_capped 0) (ex_two_waiting 2))) = 0"
proof -
  let ?c = "ex_capped 0"
  let ?w0 = "emit NodeInfoList (ex_two_waiting 2)"
  have first: "check_deploy_timeouts_node ?c ''node-1'' ?w0 =
     (Inr True,
      ?w0\<lparr>nodes := (nodes ?w0)(''node-1'' \<mapsto>
            (ex_waiting ''node-1'')\<lparr>reservation := Some (host ?c),
                provision_state := Some DEPLOYFAIL,
                target_provision_state := None, last_error := None\<rparr>),
        free_workers := free_workers ?w0 - 1,
        trace := trace ?w0 @ [ProcessEvent ''node-1'' ''fail'',
                            NodeSave (transition (Some DEPLOYFAIL) None
                                        (task_node ?c (ex_waiting ''node-1''))),
                            Spawn (CleanupAfterTimeout ''node-1'')]\<rparr>)"
    (is "_ = (_, ?w1)")
    by (rule check_deploy_timeouts_node_spawned [where d = ex_driver])
      (simp_all add: emit_def ex_two_waiting_simps ex_waiting_simps ex_capped_simps)
  have second: "check_deploy_timeouts_node ?c ''node-2'' ?w1 =
     (Inr True,
      ?w1\<lparr>nodes := (nodes ?w1)(''node-2'' \<mapsto>
            (ex_waiting ''node-2'')\<lparr>reservation := Some (host ?c),
                provision_state := Some DEPLOYFAIL,
                target_provision_state := None, last_error := None\<rparr>),
        free_workers := free_workers ?w1 - 1,
        trace := trace ?w1 @ [ProcessEvent ''node-2'' ''fail'',
                            NodeSave (transition (Some DEPLOYFAIL) None
                                        (task_node ?c (ex_waiting ''node-2''))),
                            Spawn (CleanupAfterTimeout ''node-2'')]\<rparr>)"
    (is "_ = (_, ?w2)")
    by (rule check_deploy_timeouts_node_spawned [where d = ex_driver])
      (simp_all add: emit_def ex_two_waiting_simps ex_waiting_simps ex_capped_simps)
  have tick: "check_deploy_timeouts ?c (ex_two_waiting 2) =
      check_deploy_timeouts_loop ?c [(''node-1'', ''fake''), (''node-2'', ''fake'')] 0 ?w0"
    by (simp add: check_deploy_timeouts_def Let_def ex_capped_simps)
  have l1: "check_deploy_timeouts_loop ?c [(''node-1'', ''fake''), (''node-2'', ''fake'')] 0 ?w0
      = check_deploy_timeouts_loop ?c [(''node-2'', ''fake'')] (0 + 1) ?w1"
    by (rule check_deploy_timeouts_loop_spawned [OF first]) (simp_all add: ex_capped_simps)
  have l2: "check_deploy_timeouts_loop ?c [(''node-2'', ''fake'')] (0 + 1) ?w1
      = check_deploy_timeouts_loop ?c [] (0 + 1 + 1) ?w2"
    by (rule check_deploy_timeouts_loop_spawned [OF second]) (simp_all add: ex_capped_simps)
  show ?thesis
    unfolding tick l1 l2
    by (simp add: ex_capped_simps ex_two_waiting_simps emit_simps)
      (simp add: emit_def ex_two_waiting_simps)
qed


theorem check_deploy_timeouts_cap_witness:
  "deploy_callback_timeout ((ex_capped 1)\<lparr>deploy_callback_timeout := 0\<rparr>) = 0
   \<and> check_deploy_timeouts ((ex_capped 1)\<lparr>deploy_callback_timeout := 0\<rparr>) (ex_two_waiting 2)
       = (None, ex_two_waiting 2)
   \<and> deploy_callback_timeout (ex_capped 1) \<noteq> 0 \<and> 0 < periodic_max_workers (ex_capped 1)
   \<and> fail_events (trace (snd (check_deploy_timeouts (ex_capped 1) (ex_two_waiting 2)))) \<le> 1
   \<and> fst (check_deploy_timeouts_node (ex_capped 1) ''node-1'' ex_other_holds) = Inl NodeLocked
   \<and> check_deploy_timeouts_loop (ex_capped 1) [(''node-1'', ''fake''), (''node-2'', ''fake'')] 0
         ex_other_holds
       = check_deploy_timeouts_loop (ex_capped 1) [(''node-2'', ''fake'')] 0 ex_other_holds
   \<and> fst (check_deploy_timeouts_node (ex_capped 1) ''node-1'' (ex_two_waiting 0))
       = Inl NoFreeConductorWorker
   \<and> check_deploy_timeouts_loop (ex_capped 1) [(''node-1'', ''fake''), (''node-2'', ''fake'')] 0
         (ex_two_waiting 0)
       = (None, snd (check_deploy_timeouts_node (ex_capped 1) ''node-1'' (ex_two_waiting 0)))"
proof -
  have locked: "check_deploy_timeouts_node (ex_capped 1) ''node-1'' ex_other_holds
      = (Inl NodeLocked, ex_other_holds)"
    by (rule check_deploy_timeouts_node_locked [where holder = "''conductor-2''"
          and row = "(ex_waiting ''node-1'')\<lparr>reservation := Some ''conductor-2''\<rparr>"])
      (simp_all add: ex_other_holds_def)
  have full: "fst (check_deploy_timeouts_node (ex_capped 1) ''node-1'' (ex_two_waiting 0))
      = Inl NoFreeConductorWorker"
    by (rule check_deploy_timeouts_node_no_worker [where d = ex_driver
          and row = "ex_waiting ''node-1''" and st = "Some DEPLOYFAIL" and tgt = None])
      (simp_all add: ex_two_waiting_simps ex_waiting_simps ex_capped_simps)
  note cap = check_deploy_timeouts_cap [where node_uuid = "''node-1''"
      and driver_name = "''fake''" and node_list = "[(''node-2'', ''fake'')]"
      and workers_count = 0]
  show ?thesis
    using cap [of "(ex_capped 1)\<lparr>deploy_callback_timeout := 0\<rparr>" "ex_two_waiting 2"]
      cap [of "ex_capped 1" "ex_two_waiting 2"]
      cap [of "ex_capped 1" ex_other_holds]
      cap [of "ex_capped 1" "ex_two_waiting 0"]
    by (simp add: ex_capped_simps ex_two_waiting_simps locked full)
qed

end
